theory Spec2Isabelle
  imports Complex_Main "HOL-Library.Multiset"
begin

section \<open>Findings (src/actions/runStaticAnalysis.ts)\<close>

text \<open>
  The interface \<^verbatim>\<open>Finding\<close>: severity and confidence are unions of string literals,
  modelled as datatypes; the other fields are strings and a line number. This is the type
  the source declares. TypeScript checks it at compile time only, and the reports of the
  analyzers are typed \<^verbatim>\<open>any\<close>: the objects that the adapters build at run time are
  modelled further down (\<open>rawFinding\<close>), with the values they can really hold.
\<close>

datatype severity = Critical | High | Medium | Low | Info

datatype confidence = ConfHigh | ConfMedium | ConfLow

record finding =
  id_f :: string
  file_f :: string
  line :: nat
  title :: string
  description :: string
  severity :: severity
  confidence :: confidence
  recommendation :: string
  tool :: string
  category :: string

subsection \<open>calculatePriorityScore\<close>

text \<open>The two object literals of \<^verbatim>\<open>calculatePriorityScore\<close>, read at a typed key.\<close>

fun severityScores :: "severity \<Rightarrow> int" where
  "severityScores Critical = 10"
| "severityScores High = 7"
| "severityScores Medium = 4"
| "severityScores Low = 2"
| "severityScores Info = 1"

fun confidenceScores :: "confidence \<Rightarrow> int" where
  "confidenceScores ConfHigh = 3"
| "confidenceScores ConfMedium = 2"
| "confidenceScores ConfLow = 1"

definition calculatePriorityScore :: "finding \<Rightarrow> int" where
  "calculatePriorityScore f = severityScores (severity f) * confidenceScores (confidence f)"

text \<open>
  The specification orders the severities info < low < medium < high < critical and the
  confidences low < medium < high. The code has no such order of its own; the two rank
  functions write the specification's order down, to state monotonicity against it.
\<close>

fun severityRank :: "severity \<Rightarrow> nat" where
  "severityRank Info = 0"
| "severityRank Low = 1"
| "severityRank Medium = 2"
| "severityRank High = 3"
| "severityRank Critical = 4"

fun confidenceRank :: "confidence \<Rightarrow> nat" where
  "confidenceRank ConfLow = 0"
| "confidenceRank ConfMedium = 1"
| "confidenceRank ConfHigh = 2"

subsection \<open>Summary\<close>

record summary =
  critical :: nat
  high :: nat
  medium :: nat
  low :: nat
  info :: nat
  total :: nat

text \<open>
  A thrown value, with the message that
  \<^verbatim>\<open>error instanceof Error ? error.message : String(error)\<close> reads from it.
\<close>

datatype thrown = Thrown string

fun errorMsg :: "thrown \<Rightarrow> string" where
  "errorMsg (Thrown m) = m"

subsection \<open>Array.prototype.sort and slice\<close>

text \<open>
  \<^verbatim>\<open>Array.prototype.sort(compareFn)\<close> is a stable sort (ECMAScript 2019): for a
  comparator that is a consistent order its result is the one stable arrangement, whatever
  algorithm the engine runs. That arrangement is computed by a stable insertion sort on the
  comparator: an element goes in front of the first element it does not compare greater
  than, and elements are inserted from the last one.
\<close>

fun insertBy :: "('a \<Rightarrow> 'a \<Rightarrow> int) \<Rightarrow> 'a \<Rightarrow> 'a list \<Rightarrow> 'a list" where
  "insertBy compareFn x [] = [x]"
| "insertBy compareFn x (y # ys) =
     (if compareFn x y \<le> 0 then x # y # ys else y # insertBy compareFn x ys)"

fun arraySort :: "('a \<Rightarrow> 'a \<Rightarrow> int) \<Rightarrow> 'a list \<Rightarrow> 'a list" where
  "arraySort compareFn [] = []"
| "arraySort compareFn (x # xs) = insertBy compareFn x (arraySort compareFn xs)"

text \<open>
  For a comparator that is not consistent on the elements of the array, ECMAScript leaves
  the order to the engine; the result is still a rearrangement of the array. The engine's
  choice is given as a list of positions: \<open>rearrange p xs\<close> holds the element of position
  \<open>p ! i\<close> at position \<open>i\<close>. A list that is not a permutation of the positions stands for
  the array left as it is.
\<close>

definition rearrange :: "nat list \<Rightarrow> 'a list \<Rightarrow> 'a list" where
  "rearrange p xs = (if sort p = [0..<length xs] then map (\<lambda>i. xs ! i) p else xs)"

text \<open>\<^verbatim>\<open>slice(0, k)\<close> for a count \<open>k\<close> that is not negative.\<close>

definition slice0 :: "nat \<Rightarrow> 'a list \<Rightarrow> 'a list" where
  "slice0 k xs = take k xs"

section \<open>The values the adapters read (JSON.parse)\<close>

text \<open>
  The reports of the analyzers are parsed JSON, typed \<^verbatim>\<open>any\<close>: null, booleans, numbers,
  strings, arrays and objects, and \<^verbatim>\<open>undefined\<close> for a property that is not there. An
  object is the list of its own properties (the keys distinct). Numbers are the whole
  numbers; fractions and exponents are not modelled. Characters are those of ASCII.
\<close>

datatype jsval =
    Undefined
  | Null
  | Bool bool
  | Num int
  | Str string
  | Arr "jsval list"
  | Obj "(string \<times> jsval) list"

text \<open>Truthiness, and \<^verbatim>\<open>value || fallback\<close>.\<close>

fun truthy :: "jsval \<Rightarrow> bool" where
  "truthy Undefined = False"
| "truthy Null = False"
| "truthy (Bool b) = b"
| "truthy (Num n) = (n \<noteq> 0)"
| "truthy (Str s) = (s \<noteq> [])"
| "truthy (Arr xs) = True"
| "truthy (Obj kvs) = True"

definition orElse :: "jsval \<Rightarrow> jsval \<Rightarrow> jsval" where
  "orElse v fallback = (if truthy v then v else fallback)"

definition nullish :: "jsval \<Rightarrow> bool" where
  "nullish v = (v = Undefined \<or> v = Null)"

text \<open>\<^verbatim>\<open>String(n)\<close> for a whole number, and \<^verbatim>\<open>padStart\<close>.\<close>

definition digitChar :: "nat \<Rightarrow> char" where
  "digitChar d = char_of (48 + d)"

fun showNat :: "nat \<Rightarrow> string" where
  "showNat n = (if n < 10 then [digitChar n] else showNat (n div 10) @ [digitChar (n mod 10)])"

declare showNat.simps [simp del]

definition showInt :: "int \<Rightarrow> string" where
  "showInt n = (if n < 0 then ''-'' @ showNat (nat (- n)) else showNat (nat n))"

definition padStart :: "nat \<Rightarrow> char \<Rightarrow> string \<Rightarrow> string" where
  "padStart n c s = replicate (n - length s) c @ s"

text \<open>
  The conversion to a string that a template literal and a property key apply
  (\<^verbatim>\<open>ToString\<close>, for a key \<^verbatim>\<open>ToPropertyKey\<close>). An array is joined with commas, null and
  undefined elements printing as nothing. An object parsed from JSON prints as
  \<^verbatim>\<open>[object Object]\<close> through \<^verbatim>\<open>Object.prototype.toString\<close>, unless it has a property
  \<^verbatim>\<open>toString\<close> of its own: that one is data, not a function, the inherited
  \<^verbatim>\<open>valueOf\<close> (or an own one) gives no primitive either, and the conversion throws a
  TypeError.
\<close>

fun ToString :: "jsval \<Rightarrow> thrown + string" and arrayJoin :: "jsval list \<Rightarrow> thrown + string" where
  "ToString Undefined = Inr ''undefined''"
| "ToString Null = Inr ''null''"
| "ToString (Bool b) = Inr (if b then ''true'' else ''false'')"
| "ToString (Num n) = Inr (showInt n)"
| "ToString (Str s) = Inr s"
| "ToString (Arr xs) = arrayJoin xs"
| "ToString (Obj kvs) =
     (if ''toString'' \<in> fst ` set kvs
      then Inl (Thrown ''Cannot convert object to primitive value'')
      else Inr ''[object Object]'')"
| "arrayJoin [] = Inr []"
| "arrayJoin (x # xs) =
     (case (if x = Undefined \<or> x = Null then Inr [] else ToString x) of
        Inl err \<Rightarrow> Inl err
      | Inr s \<Rightarrow>
          (if xs = [] then Inr s
           else (case arrayJoin xs of Inl err \<Rightarrow> Inl err | Inr t \<Rightarrow> Inr (s @ '','' @ t))))"

text \<open>
  Reading a property by a name that none of the built-in prototypes defines (all the names
  the adapters read are such): an object gives its own property or \<^verbatim>\<open>undefined\<close>, any
  other value that is not null or undefined gives \<^verbatim>\<open>undefined\<close>.
\<close>

fun property :: "jsval \<Rightarrow> string \<Rightarrow> jsval" where
  "property (Obj kvs) name = (case map_of kvs name of Some v \<Rightarrow> v | None \<Rightarrow> Undefined)"
| "property v name = Undefined"

text \<open>\<^verbatim>\<open>value.name\<close>: a TypeError on null and undefined (the wording is the engine's).\<close>

definition get :: "jsval \<Rightarrow> string \<Rightarrow> thrown + jsval" where
  "get v name =
     (if v = Undefined
      then Inl (Thrown (''Cannot read properties of undefined (reading '' @ [CHR 0x27] @ name
                          @ [CHR 0x27] @ '')''))
      else if v = Null
      then Inl (Thrown (''Cannot read properties of null (reading '' @ [CHR 0x27] @ name
                          @ [CHR 0x27] @ '')''))
      else Inr (property v name))"

text \<open>\<^verbatim>\<open>value?.name\<close>\<close>

definition optGet :: "jsval \<Rightarrow> string \<Rightarrow> jsval" where
  "optGet v name = (if nullish v then Undefined else property v name)"

text \<open>\<^verbatim>\<open>value?.[0]\<close>: the first element of an array, the first character of a string.\<close>

fun optIndex0 :: "jsval \<Rightarrow> jsval" where
  "optIndex0 (Arr (x # xs)) = x"
| "optIndex0 (Str (c # cs)) = Str [c]"
| "optIndex0 (Obj kvs) = property (Obj kvs) ''0''"
| "optIndex0 v = Undefined"

text \<open>
  \<^verbatim>\<open>for (const x of value)\<close>: the elements of an array, the characters of a string; any
  other value is not iterable and the loop throws a TypeError.
\<close>

fun iterate :: "jsval \<Rightarrow> thrown + jsval list" where
  "iterate (Arr xs) = Inr xs"
| "iterate (Str s) = Inr (map (\<lambda>c. Str [c]) s)"
| "iterate v = Inl (Thrown ''value is not iterable'')"

text \<open>\<^verbatim>\<open>toLowerCase\<close> on ASCII text (bytes outside A to Z are left as they are).\<close>

definition lowerChar :: "char \<Rightarrow> char" where
  "lowerChar c =
     (let n = (of_char c :: nat) in if 65 \<le> n \<and> n \<le> 90 then char_of (n + 32) else c)"

definition toLowerCase :: "string \<Rightarrow> string" where
  "toLowerCase s = map lowerChar s"

text \<open>
  \<^verbatim>\<open>value?.toLowerCase()\<close>: only a string has the method; on any other value that is not
  null or undefined the call throws a TypeError.
\<close>

fun optToLowerCase :: "jsval \<Rightarrow> thrown + jsval" where
  "optToLowerCase Undefined = Inr Undefined"
| "optToLowerCase Null = Inr Undefined"
| "optToLowerCase (Str s) = Inr (Str (toLowerCase s))"
| "optToLowerCase v = Inl (Thrown ''detector.confidence?.toLowerCase is not a function'')"

text \<open>\<^verbatim>\<open>trim\<close>, for the white space of ASCII.\<close>

definition isSpace :: "char \<Rightarrow> bool" where
  "isSpace c = (c \<in> set [CHR '' '', CHR 0x09, CHR 0x0A, CHR 0x0B, CHR 0x0C, CHR 0x0D])"

definition trim :: "string \<Rightarrow> string" where
  "trim s = rev (dropWhile isSpace (rev (dropWhile isSpace s)))"

section \<open>The analyzers' adapters (src/actions/runStaticAnalysis.ts)\<close>

text \<open>
  What an adapter builds is annotated \<^verbatim>\<open>Finding\<close> in the source, but nothing checks a
  field at run time, so the object is modelled with the values it really holds:
  \<open>rawFinding\<close>. The fields copied from a report hold whatever the report had there. The
  severity is a value read from \<^verbatim>\<open>SEVERITY_MAP\<close>, or \<^verbatim>\<open>'info'\<close>; the confidence is a
  string.
\<close>

definition SEVERITY_MAP :: "(string \<times> severity) list" where
  "SEVERITY_MAP =
     [(''High'', High), (''Medium'', Medium), (''Low'', Low), (''Informational'', Info),
      (''error'', High), (''warning'', Medium), (''info'', Info)]"

text \<open>
  \<^verbatim>\<open>SEVERITY_MAP\<close> is an object literal, so a property read that finds no own key goes on
  to \<^verbatim>\<open>Object.prototype\<close>, whose string-keyed members are these; each is a function or an
  object, hence truthy.
\<close>

definition objectPrototypeMembers :: "string list" where
  "objectPrototypeMembers =
     [''constructor'', ''__defineGetter__'', ''__defineSetter__'', ''hasOwnProperty'',
      ''__lookupGetter__'', ''__lookupSetter__'', ''isPrototypeOf'', ''propertyIsEnumerable'',
      ''toString'', ''valueOf'', ''__proto__'', ''toLocaleString'']"

text \<open>
  The value of a finding's \<^verbatim>\<open>severity\<close>: one of the five literals (\<open>Literal\<close>), or the
  property of \<^verbatim>\<open>Object.prototype\<close> of that name (\<open>Inherited\<close>).
\<close>

datatype severityValue = Literal severity | Inherited string

text \<open>\<^verbatim>\<open>SEVERITY_MAP[key]\<close> for a key that is a string; \<open>None\<close> is \<^verbatim>\<open>undefined\<close>.\<close>

definition readSeverityMap :: "string \<Rightarrow> severityValue option" where
  "readSeverityMap key =
     (case map_of SEVERITY_MAP key of
        Some s \<Rightarrow> Some (Literal s)
      | None \<Rightarrow> if key \<in> set objectPrototypeMembers then Some (Inherited key) else None)"

text \<open>
  \<^verbatim>\<open>SEVERITY_MAP[native] || 'info'\<close>: the native value is converted to a property key,
  which can throw; every value the read can give is truthy.
\<close>

definition severityOf :: "jsval \<Rightarrow> thrown + severityValue" where
  "severityOf native =
     (case ToString native of
        Inl err \<Rightarrow> Inl err
      | Inr key \<Rightarrow> Inr (case readSeverityMap key of Some v \<Rightarrow> v | None \<Rightarrow> Literal Info))"

text \<open>
  \<^verbatim>\<open>(detector.confidence?.toLowerCase() as Finding['confidence']) || 'medium'\<close>: the cast
  checks nothing; only a missing, null or empty value reaches the default.
\<close>

definition slitherConfidence :: "jsval \<Rightarrow> thrown + string" where
  "slitherConfidence native =
     (case optToLowerCase native of
        Inl err \<Rightarrow> Inl err
      | Inr (Str s) \<Rightarrow> Inr (if s = [] then ''medium'' else s)
      | Inr v \<Rightarrow> Inr ''medium'')"

record rawFinding =
  raw_id :: string
  raw_file :: jsval
  raw_line :: jsval
  raw_title :: jsval
  raw_description :: jsval
  raw_severity :: severityValue
  raw_confidence :: string
  raw_recommendation :: jsval
  raw_tool :: string
  raw_category :: jsval

subsection \<open>Slither\<close>

text \<open>\<^verbatim>\<open>elements?.[0]?.source_mapping\<close>, for the value of \<^verbatim>\<open>detector.elements\<close>.\<close>

definition firstSourceMapping :: "jsval \<Rightarrow> jsval" where
  "firstSourceMapping elements = optGet (optIndex0 elements) ''source_mapping''"

text \<open>
  The object literal of the loop, its properties evaluated in the order written. Three of
  them can throw: \<^verbatim>\<open>detector.elements\<close> when the detector is null, the property key made
  of \<^verbatim>\<open>detector.impact\<close>, and \<^verbatim>\<open>toLowerCase\<close> on a confidence that is not a string.
\<close>

definition slitherFinding :: "nat \<Rightarrow> jsval \<Rightarrow> thrown + rawFinding" where
  "slitherFinding idCounter detector =
     (case get detector ''elements'' of
        Inl err \<Rightarrow> Inl err
      | Inr elements \<Rightarrow>
     (case severityOf (property detector ''impact'') of
        Inl err \<Rightarrow> Inl err
      | Inr sev \<Rightarrow>
     (case slitherConfidence (property detector ''confidence'') of
        Inl err \<Rightarrow> Inl err
      | Inr conf \<Rightarrow>
          Inr \<lparr> raw_id = ''SLTH-'' @ padStart 3 (CHR ''0'') (showNat idCounter),
                raw_file = orElse (optGet (firstSourceMapping elements) ''filename_relative'')
                             (Str ''unknown''),
                raw_line = orElse (optIndex0 (optGet (firstSourceMapping elements) ''lines''))
                             (Num 0),
                raw_title = orElse (property detector ''check'') (Str ''Unknown Issue''),
                raw_description = orElse (property detector ''description'') (Str []),
                raw_severity = sev,
                raw_confidence = conf,
                raw_recommendation = orElse (property detector ''markdown'')
                                       (Str ''Review the code carefully''),
                raw_tool = ''Slither'',
                raw_category = orElse (property detector ''check'') (Str ''general'') \<rparr>)))"

text \<open>
  The loop pushes one finding per detector. A throw leaves the loop for the \<^verbatim>\<open>catch\<close> of
  the handler, which logs it; \<^verbatim>\<open>resolve(findings)\<close> then gives the findings pushed so far.
\<close>

fun slitherDetectors :: "nat \<Rightarrow> jsval list \<Rightarrow> rawFinding list" where
  "slitherDetectors idCounter [] = []"
| "slitherDetectors idCounter (detector # rest) =
     (case slitherFinding idCounter detector of
        Inl err \<Rightarrow> []
      | Inr finding \<Rightarrow> finding # slitherDetectors (idCounter + 1) rest)"

text \<open>
  What the \<^verbatim>\<open>close\<close> and \<^verbatim>\<open>error\<close> handlers of \<^verbatim>\<open>runSlither\<close> can meet: the process
  cannot be started; it ends without a report file; reading or parsing the report throws
  (caught, and the empty list is resolved); the report is parsed.
\<close>

datatype slitherRun =
    SlitherUnavailable
  | SlitherNoReport
  | SlitherUnreadable thrown
  | SlitherReport jsval

text \<open>
  \<^verbatim>\<open>report.results && report.results.detectors\<close>, then the loop over it; \<open>None\<close> when the
  condition is falsy.
\<close>

definition reportDetectors :: "jsval \<Rightarrow> thrown + jsval list option" where
  "reportDetectors report =
     (case get report ''results'' of
        Inl err \<Rightarrow> Inl err
      | Inr results \<Rightarrow>
          if \<not> truthy results then Inr None
          else if \<not> truthy (property results ''detectors'') then Inr None
          else (case iterate (property results ''detectors'') of
                  Inl err \<Rightarrow> Inl err
                | Inr detectors \<Rightarrow> Inr (Some detectors)))"

fun runSlither :: "slitherRun \<Rightarrow> rawFinding list" where
  "runSlither SlitherUnavailable = []"
| "runSlither SlitherNoReport = []"
| "runSlither (SlitherUnreadable err) = []"
| "runSlither (SlitherReport report) =
     (case reportDetectors report of
        Inl err \<Rightarrow> []
      | Inr None \<Rightarrow> []
      | Inr (Some detectors) \<Rightarrow> slitherDetectors 1 detectors)"

subsection \<open>Solhint\<close>

text \<open>
  The object literal of the inner loop: \<^verbatim>\<open>issue.line\<close> throws when the issue is null, and
  so can the property key made of \<^verbatim>\<open>issue.severity\<close>. \<open>path\<close> is \<^verbatim>\<open>report.filePath\<close>.
\<close>

definition solhintFinding :: "nat \<Rightarrow> jsval \<Rightarrow> jsval \<Rightarrow> thrown + rawFinding" where
  "solhintFinding idCounter path issue =
     (case get issue ''line'' of
        Inl err \<Rightarrow> Inl err
      | Inr lineValue \<Rightarrow>
     (case severityOf (property issue ''severity'') of
        Inl err \<Rightarrow> Inl err
      | Inr sev \<Rightarrow>
          Inr \<lparr> raw_id = ''SLNT-'' @ padStart 3 (CHR ''0'') (showNat idCounter),
                raw_file = orElse path (Str ''unknown''),
                raw_line = orElse lineValue (Num 0),
                raw_title = orElse (property issue ''ruleId'') (Str ''Style Issue''),
                raw_description = orElse (property issue ''message'') (Str []),
                raw_severity = sev,
                raw_confidence = ''medium'',
                raw_recommendation = Str ''Follow Solidity best practices'',
                raw_tool = ''Solhint'',
                raw_category = orElse (property issue ''ruleId'') (Str ''style'') \<rparr>))"

text \<open>
  The outer and the inner loop share one array and one counter. Each function gives the
  findings pushed and whether a throw has ended both (\<open>True\<close>): nothing is pushed after it.
\<close>

fun solhintIssues :: "nat \<Rightarrow> jsval \<Rightarrow> jsval list \<Rightarrow> rawFinding list \<times> bool" where
  "solhintIssues idCounter path [] = ([], False)"
| "solhintIssues idCounter path (issue # rest) =
     (case solhintFinding idCounter path issue of
        Inl err \<Rightarrow> ([], True)
      | Inr finding \<Rightarrow>
          (case solhintIssues (idCounter + 1) path rest of
             (findings, stopped) \<Rightarrow> (finding # findings, stopped)))"

fun solhintReports :: "nat \<Rightarrow> jsval list \<Rightarrow> rawFinding list" where
  "solhintReports idCounter [] = []"
| "solhintReports idCounter (report # rest) =
     (case get report ''reports'' of
        Inl err \<Rightarrow> []
      | Inr issues \<Rightarrow>
          if \<not> truthy issues then solhintReports idCounter rest
          else (case iterate issues of
                  Inl err \<Rightarrow> []
                | Inr issueList \<Rightarrow>
                    (case solhintIssues idCounter (property report ''filePath'') issueList of
                       (findings, stopped) \<Rightarrow>
                         if stopped then findings
                         else findings @ solhintReports (idCounter + length findings) rest)))"

text \<open>
  \<^verbatim>\<open>runSolhint\<close>: the process cannot be started; its output is blank; parsing throws
  (caught); the output is parsed.
\<close>

datatype solhintRun =
    SolhintUnavailable
  | SolhintBlank
  | SolhintUnreadable thrown
  | SolhintOutput jsval

fun runSolhint :: "solhintRun \<Rightarrow> rawFinding list" where
  "runSolhint SolhintUnavailable = []"
| "runSolhint SolhintBlank = []"
| "runSolhint (SolhintUnreadable err) = []"
| "runSolhint (SolhintOutput reports) =
     (case iterate reports of
        Inl err \<Rightarrow> []
      | Inr reportList \<Rightarrow> solhintReports 1 reportList)"

subsection \<open>Pattern checks\<close>

text \<open>The four patterns of \<^verbatim>\<open>runPatternChecks\<close>, in the order of the array.\<close>

datatype pattern = LowLevelCall | TxOrigin | Selfdestruct | Delegatecall

fun patternTitle :: "pattern \<Rightarrow> string" where
  "patternTitle LowLevelCall = ''Low-level call detected''"
| "patternTitle TxOrigin = ''tx.origin usage detected''"
| "patternTitle Selfdestruct = ''selfdestruct usage detected''"
| "patternTitle Delegatecall = ''delegatecall usage detected''"

fun patternSeverity :: "pattern \<Rightarrow> severity" where
  "patternSeverity LowLevelCall = Medium"
| "patternSeverity TxOrigin = High"
| "patternSeverity Selfdestruct = Medium"
| "patternSeverity Delegatecall = High"

fun patternRecommendation :: "pattern \<Rightarrow> string" where
  "patternRecommendation LowLevelCall =
     ''Consider using transfer() or send() with proper error handling''"
| "patternRecommendation TxOrigin =
     ''Use msg.sender instead of tx.origin to prevent phishing attacks''"
| "patternRecommendation Selfdestruct =
     ''Ensure selfdestruct is properly protected and necessary''"
| "patternRecommendation Delegatecall =
     ''Ensure delegatecall target is trusted and immutable''"

text \<open>
  A line on which the regular expression of a pattern tested true: the file (relative to
  the repository), the index of the line and its text. Which lines these are, and in which
  order the search meets them, is the file system's and the regular expressions' doing; when
  reading a directory or a file throws, the search ends there and the findings pushed so
  far are returned.
\<close>

record patternMatch =
  pm_file :: string
  pm_index :: nat
  pm_text :: string
  pm_pattern :: pattern

definition patternFinding :: "nat \<Rightarrow> patternMatch \<Rightarrow> rawFinding" where
  "patternFinding idCounter m =
     \<lparr> raw_id = ''PTRN-'' @ padStart 3 (CHR ''0'') (showNat idCounter),
       raw_file = Str (pm_file m),
       raw_line = Num (int (pm_index m) + 1),
       raw_title = Str (patternTitle (pm_pattern m)),
       raw_description = Str (''Found suspicious pattern: '' @ take 100 (trim (pm_text m))),
       raw_severity = Literal (patternSeverity (pm_pattern m)),
       raw_confidence = ''medium'',
       raw_recommendation = Str (patternRecommendation (pm_pattern m)),
       raw_tool = ''PatternCheck'',
       raw_category = Str ''security'' \<rparr>"

fun patternFindings :: "nat \<Rightarrow> patternMatch list \<Rightarrow> rawFinding list" where
  "patternFindings idCounter [] = []"
| "patternFindings idCounter (m # rest) =
     patternFinding idCounter m # patternFindings (idCounter + 1) rest"

definition runPatternChecks :: "patternMatch list \<Rightarrow> rawFinding list" where
  "runPatternChecks matches = patternFindings 1 matches"

subsection \<open>runStaticAnalysis\<close>

record staticAnalysisResult =
  sa_success :: bool
  sa_findings :: "rawFinding list"
  sa_summary :: summary
  sa_toolsRun :: "string list"
  sa_duration :: int
  sa_error :: "string option"

text \<open>
  \<^verbatim>\<open>runStaticAnalysis\<close>. The three analyzers are external: the input is what each of them
  left for its adapter, or the value the awaited \<^verbatim>\<open>Promise.all\<close> rejects with.
  \<open>startTime\<close> and \<open>endTime\<close> are the two readings of the clock. A filter
  \<^verbatim>\<open>f.severity === 'high'\<close> keeps the findings whose severity is that literal.
\<close>

definition runStaticAnalysis ::
  "int \<Rightarrow> int \<Rightarrow> thrown + (slitherRun \<times> solhintRun \<times> patternMatch list) \<Rightarrow> staticAnalysisResult" where
  "runStaticAnalysis startTime endTime analyzers =
     (case analyzers of
        Inr (slither, solhint, matches) \<Rightarrow>
          (let slitherFindings = runSlither slither;
               solhintFindings = runSolhint solhint;
               patternFindings = runPatternChecks matches;
               allFindings = slitherFindings @ solhintFindings @ patternFindings;
               summary = \<lparr> critical = length (filter (\<lambda>f. raw_severity f = Literal Critical) allFindings),
                           high = length (filter (\<lambda>f. raw_severity f = Literal High) allFindings),
                           medium = length (filter (\<lambda>f. raw_severity f = Literal Medium) allFindings),
                           low = length (filter (\<lambda>f. raw_severity f = Literal Low) allFindings),
                           info = length (filter (\<lambda>f. raw_severity f = Literal Info) allFindings),
                           total = length allFindings \<rparr>;
               duration = endTime - startTime;
               toolsRun = [''PatternCheck'']
                  @ (if length slitherFindings > 0 then [''Slither''] else [])
                  @ (if length solhintFindings > 0 then [''Solhint''] else [])
           in \<lparr> sa_success = True, sa_findings = allFindings, sa_summary = summary,
                sa_toolsRun = toolsRun, sa_duration = duration, sa_error = None \<rparr>)
      | Inl err \<Rightarrow>
          \<lparr> sa_success = False, sa_findings = [],
            sa_summary = \<lparr> critical = 0, high = 0, medium = 0, low = 0, info = 0, total = 0 \<rparr>,
            sa_toolsRun = [], sa_duration = endTime - startTime,
            sa_error = Some (errorMsg err) \<rparr>)"

subsection \<open>calculatePriorityScore at run time\<close>

text \<open>
  \<^verbatim>\<open>confidenceScores[finding.confidence]\<close> is a number for the three keys of the literal
  only: any other string reads \<^verbatim>\<open>undefined\<close> or a property of \<^verbatim>\<open>Object.prototype\<close>.
\<close>

definition confidenceOf :: "string \<Rightarrow> confidence option" where
  "confidenceOf s =
     (if s = ''high'' then Some ConfHigh
      else if s = ''medium'' then Some ConfMedium
      else if s = ''low'' then Some ConfLow
      else None)"

text \<open>
  \<^verbatim>\<open>calculatePriorityScore\<close> applied to the object an adapter built. With a severity and a
  confidence of the \<^verbatim>\<open>Finding\<close> interface it is the product of the two weights. With any
  other, one factor is \<^verbatim>\<open>undefined\<close>, a function or an object, and the product is
  \<^verbatim>\<open>NaN\<close>: \<open>None\<close>.
\<close>

definition priorityScoreOf :: "rawFinding \<Rightarrow> int option" where
  "priorityScoreOf f =
     (case raw_severity f of
        Inherited name \<Rightarrow> None
      | Literal s \<Rightarrow>
          (case confidenceOf (raw_confidence f) of
             None \<Rightarrow> None
           | Some c \<Rightarrow> Some (severityScores s * confidenceScores c)))"

text \<open>A finding whose severity and confidence are values of the \<^verbatim>\<open>Finding\<close> interface.\<close>

definition conforms :: "rawFinding \<Rightarrow> bool" where
  "conforms f =
     ((case raw_severity f of Literal s \<Rightarrow> True | Inherited name \<Rightarrow> False)
      \<and> confidenceOf (raw_confidence f) \<noteq> None)"

text \<open>A finding of the declared type as the object it is at run time.\<close>

fun confidenceText :: "confidence \<Rightarrow> string" where
  "confidenceText ConfHigh = ''high''"
| "confidenceText ConfMedium = ''medium''"
| "confidenceText ConfLow = ''low''"

definition rawOf :: "finding \<Rightarrow> rawFinding" where
  "rawOf f =
     \<lparr> raw_id = id_f f, raw_file = Str (file_f f), raw_line = Num (int (line f)),
       raw_title = Str (title f), raw_description = Str (description f),
       raw_severity = Literal (severity f), raw_confidence = confidenceText (confidence f),
       raw_recommendation = Str (recommendation f), raw_tool = tool f,
       raw_category = Str (category f) \<rparr>"

text \<open>
  The comparator of \<^verbatim>\<open>runAudit\<close>:
  \<^verbatim>\<open>(a, b) => calculatePriorityScore(b) - calculatePriorityScore(a)\<close>. A difference with
  \<^verbatim>\<open>NaN\<close> is \<^verbatim>\<open>NaN\<close>, which the sort reads as 0.
\<close>

definition byPriorityDesc :: "rawFinding \<Rightarrow> rawFinding \<Rightarrow> int" where
  "byPriorityDesc a b =
     (case (priorityScoreOf b, priorityScoreOf a) of
        (Some x, Some y) \<Rightarrow> x - y
      | _ \<Rightarrow> 0)"

text \<open>
  ECMAScript calls a comparator a consistent comparison function for the elements of an
  array only if, among other things, no call of it on two of them gives \<^verbatim>\<open>NaN\<close>. This
  comparator is the difference of two scores: it is consistent exactly when every score is
  a number.
\<close>

definition consistentComparator :: "rawFinding list \<Rightarrow> bool" where
  "consistentComparator findings = list_all (\<lambda>f. priorityScoreOf f \<noteq> None) findings"

text \<open>
  \<^verbatim>\<open>findings.sort(byPriorityDesc)\<close>: the stable arrangement when the comparator is
  consistent, the engine's choice otherwise.
\<close>

definition sortByPriority :: "(rawFinding list \<Rightarrow> nat list) \<Rightarrow> rawFinding list \<Rightarrow> rawFinding list" where
  "sortByPriority engine findings =
     (if consistentComparator findings then arraySort byPriorityDesc findings
      else rearrange (engine findings) findings)"

text \<open>
  The order \<^verbatim>\<open>priority(a) >= priority(b)\<close> between neighbours of a list in descending
  order; a comparison with \<^verbatim>\<open>NaN\<close> is false.
\<close>

definition scoreAtLeast :: "rawFinding \<Rightarrow> rawFinding \<Rightarrow> bool" where
  "scoreAtLeast a b =
     (case (priorityScoreOf a, priorityScoreOf b) of
        (Some x, Some y) \<Rightarrow> y \<le> x
      | _ \<Rightarrow> False)"

section \<open>Collaborators of the coordinator\<close>

subsection \<open>Configuration (utils/config.ts), the fields the coordinator reads\<close>

record config =
  enableDynamicTesting :: bool
  enableAutoPR :: bool
  enableTelegramNotifications :: bool
  githubToken :: string
  testnetPrivateKey :: string
  rpcUrls :: "string list"
  chainId :: nat
  telegramToken :: string
  telegramChatId :: string

text \<open>\<^verbatim>\<open>value || fallback\<close> on an optional string: missing and empty are falsy.\<close>

definition orString :: "string option \<Rightarrow> string \<Rightarrow> string" where
  "orString v fallback = (case v of None \<Rightarrow> fallback | Some s \<Rightarrow> if s = [] then fallback else s)"

subsection \<open>Result records\<close>

record cloneRepoResult =
  cr_success :: bool
  cr_localPath :: string
  cr_repoUrl :: string
  cr_branch :: string
  cr_commit :: string
  cr_error :: "string option"

record validation =
  isValid :: bool
  contractFiles :: "string list"
  v_error :: "string option"

datatype txStatus = TxSuccess | TxReverted

record testTransaction =
  tx_hash :: string
  tx_from :: string
  tx_to :: string
  tx_value :: string
  tx_gasUsed :: nat
  tx_status :: txStatus
  tx_blockNumber :: nat
  tx_error :: "string option"

record deploymentInfo =
  contractName :: string
  address :: string
  deployer :: string
  txHash :: string
  dep_gasUsed :: nat
  dep_blockNumber :: nat

record dynamicSummary =
  totalDeployed :: nat
  totalTransactions :: nat
  successfulTx :: nat
  failedTx :: nat
  totalGasUsed :: nat

record dynamicTestResult =
  dt_success :: bool
  deployments :: "deploymentInfo list"
  transactions :: "testTransaction list"
  dt_summary :: dynamicSummary
  rpcUrl :: string
  dt_chainId :: nat
  dt_duration :: int
  dt_error :: "string option"

text \<open>
  \<^verbatim>\<open>generateFixes\<close> and \<^verbatim>\<open>createPR\<close> are modules of their own, called here through
  their results; the coordinator reads \<^verbatim>\<open>fixes\<close> of the one and \<^verbatim>\<open>prUrl\<close> of the other.
  A fix is opaque to the coordinator (\<^verbatim>\<open>any\<close>).
\<close>

type_synonym fixItem = string

record fixesResult =
  fx_fixes :: "fixItem list"

record prResult =
  pr_success :: bool
  pr_prUrl :: "string option"
  pr_error :: "string option"

record createPRInput =
  pi_repoPath :: string
  pi_repoUrl :: string
  pi_findings :: "rawFinding list"
  pi_fixes :: "fixItem list"
  pi_dynamicTestResult :: "dynamicTestResult option"
  pi_auditId :: string

record auditRequest =
  rq_repoUrl :: string
  rq_branch :: "string option"
  rq_runDynamicTests :: "bool option"
  rq_createPullRequest :: "bool option"

record auditResult =
  ar_success :: bool
  ar_auditId :: string
  ar_repoUrl :: string
  ar_findings :: "rawFinding list"
  ar_fixes :: "fixItem list"
  ar_dynamicTestResult :: "dynamicTestResult option"
  ar_prUrl :: "string option"
  ar_summary :: summary
  ar_duration :: int
  ar_error :: "string option"

text \<open>The object written to \<^verbatim>\<open>audit-report.json\<close>.\<close>

record report =
  rp_auditId :: string
  rp_repoUrl :: string
  rp_timestamp :: nat
  staticAnalysis :: staticAnalysisResult
  dynamicTests :: "dynamicTestResult option"
  rp_fixes :: fixesResult
  rp_prUrl :: "string option"

subsection \<open>Notifications\<close>

text \<open>
  A call of one of the \<^verbatim>\<open>notify...\<close> functions of telegramBot.ts, with its arguments. The
  success rate is the exact quotient, not the rounded float. The titles handed to
  \<^verbatim>\<open>notifyPRCreated\<close> are the \<^verbatim>\<open>title\<close> fields of findings, whatever they hold.
\<close>

datatype notificationCall =
    AuditStartCall string string
  | CloneCompleteCall string nat
  | StaticAnalysisCompleteCall "rawFinding list" "rawFinding list"
  | DynamicTestsCompleteCall nat nat rat
  | PRCreatedCall string nat "jsval list"
  | AuditCompleteCall auditResult
  | AuditErrorCall string string

text \<open>
  A formatted message: the heading of its template and the values the template is filled
  with, in order. The fixed text between them is left out, and so are two renderings that
  depend on the locale and on floating point: the time of day in the start message and the
  digits of the success rate.
\<close>

datatype message = Message string "string list"

subsection \<open>The world outside the coordinator\<close>

text \<open>The readings of \<^verbatim>\<open>Date.now()\<close> and \<^verbatim>\<open>new Date()\<close>, one per place that reads the clock.\<close>

record clockReadings =
  now_request :: nat
  now_auditId :: nat
  now_startTime :: nat
  now_static_start :: nat
  now_static_end :: nat
  now_dynamic_start :: nat
  now_dynamic_end :: nat
  now_report :: nat
  now_end :: nat
  now_completed :: nat

text \<open>
  Everything the run calls that is not its own code: git, the file system, the analyzers,
  the RPC endpoints and the chain, the fix generator, the publisher, the Telegram API, and
  the engine's sort where ECMAScript leaves the order open. A call that can throw returns a
  sum, \<open>Inl\<close> the thrown value. \<open>analyzerRuns\<close> is what the three analyzers leave for their
  adapters in a repository. \<open>bot\<close> says whether \<^verbatim>\<open>initTelegramBot\<close> has set the module's
  \<^verbatim>\<open>bot\<close>; \<open>sendMessage\<close> is \<^verbatim>\<open>bot.sendMessage\<close>.
\<close>

record world =
  clock :: clockReadings
  gitClone :: "string \<Rightarrow> string \<Rightarrow> thrown + string \<times> string"
  findSolFiles :: "string \<Rightarrow> thrown + string list"
  analyzerRuns :: "string \<Rightarrow> thrown + slitherRun \<times> solhintRun \<times> patternMatch list"
  enginePermutation :: "rawFinding list \<Rightarrow> nat list"
  rpcLatency :: "string \<Rightarrow> nat option"
  deployAndTest :: "string \<Rightarrow> string \<Rightarrow> string \<Rightarrow> thrown + deploymentInfo list \<times> testTransaction list"
  generateFixes :: "rawFinding list \<Rightarrow> string \<Rightarrow> thrown + fixesResult"
  createPR :: "createPRInput \<Rightarrow> thrown + prResult"
  writeReport :: "string \<Rightarrow> report \<Rightarrow> thrown + unit"
  bot :: bool
  sendMessage :: "string \<Rightarrow> message \<Rightarrow> thrown + unit"

text \<open>
  \<^verbatim>\<open>staticResult.findings.sort((a, b) => calculatePriorityScore(b) - calculatePriorityScore(a))\<close>
\<close>

definition sortFindings :: "world \<Rightarrow> rawFinding list \<Rightarrow> rawFinding list" where
  "sortFindings w findings = sortByPriority (enginePermutation w) findings"

subsection \<open>cloneRepository and validateSolidityRepo (actions/cloneRepo.ts)\<close>

text \<open>
  \<open>gitClone\<close> is the body of the \<^verbatim>\<open>try\<close> (mkdir, clone, log): the clone path and the
  commit, or what it throws.
\<close>

definition cloneRepository :: "world \<Rightarrow> string \<Rightarrow> string \<Rightarrow> cloneRepoResult" where
  "cloneRepository w repoUrl branch =
     (case gitClone w repoUrl branch of
        Inr (clonePath, commit) \<Rightarrow>
          \<lparr> cr_success = True, cr_localPath = clonePath, cr_repoUrl = repoUrl,
            cr_branch = branch, cr_commit = commit, cr_error = None \<rparr>
      | Inl error \<Rightarrow>
          \<lparr> cr_success = False, cr_localPath = [], cr_repoUrl = repoUrl,
            cr_branch = branch, cr_commit = [], cr_error = Some (errorMsg error) \<rparr>)"

definition validateSolidityRepo :: "world \<Rightarrow> string \<Rightarrow> validation" where
  "validateSolidityRepo w localPath =
     (case findSolFiles w localPath of
        Inr files \<Rightarrow>
          (if length files = 0
           then \<lparr> isValid = False, contractFiles = [],
                  v_error = Some ''No Solidity (.sol) files found in repository'' \<rparr>
           else \<lparr> isValid = True, contractFiles = files, v_error = None \<rparr>)
      | Inl error \<Rightarrow>
          \<lparr> isValid = False, contractFiles = [], v_error = Some (errorMsg error) \<rparr>)"

subsection \<open>runDynamicTests (actions/runDynamicTests.ts)\<close>

text \<open>
  \<^verbatim>\<open>a.latency - b.latency\<close>, where a failed probe has latency \<^verbatim>\<open>Infinity\<close> (\<open>None\<close>): only
  the sign matters to the sort; \<^verbatim>\<open>Infinity - Infinity\<close> is \<^verbatim>\<open>NaN\<close>, which sorts as 0.
\<close>

definition compareLatency :: "string \<times> nat option \<Rightarrow> string \<times> nat option \<Rightarrow> int" where
  "compareLatency a b =
     (case (snd a, snd b) of
        (Some x, Some y) \<Rightarrow> int x - int y
      | (Some x, None) \<Rightarrow> -1
      | (None, Some y) \<Rightarrow> 1
      | (None, None) \<Rightarrow> 0)"

text \<open>
  \<^verbatim>\<open>selectBestRPC\<close>. With no URL, \<^verbatim>\<open>results.sort(...)[0]\<close> is \<^verbatim>\<open>undefined\<close> and reading
  its \<^verbatim>\<open>latency\<close> throws a TypeError (the wording of its message is the engine's).
\<close>

definition selectBestRPC :: "world \<Rightarrow> string list \<Rightarrow> thrown + string" where
  "selectBestRPC w urls =
     (case arraySort compareLatency (map (\<lambda>url. (url, rpcLatency w url)) urls) of
        [] \<Rightarrow> Inl (Thrown ''Cannot read properties of undefined (reading 'latency')'')
      | best # rest \<Rightarrow>
          (case snd best of
             None \<Rightarrow> Inl (Thrown ''No working RPC URLs found'')
           | Some latency \<Rightarrow> Inr (fst best)))"

text \<open>
  \<open>deployAndTest\<close> is the rest of the \<^verbatim>\<open>try\<close>: wallet, balance, compilation, deployments and
  test transactions. Gas is a decimal string in the source, summed as \<^verbatim>\<open>BigInt\<close>.
\<close>

definition runDynamicTests :: "config \<Rightarrow> world \<Rightarrow> string \<Rightarrow> dynamicTestResult" where
  "runDynamicTests cfg w repoPath =
     (case (case selectBestRPC w (rpcUrls cfg) of
              Inl error \<Rightarrow> Inl error
            | Inr url \<Rightarrow>
                (case deployAndTest w repoPath url (testnetPrivateKey cfg) of
                   Inl error \<Rightarrow> Inl error
                 | Inr (ds, ts) \<Rightarrow> Inr (url, ds, ts))) of
        Inr (url, ds, ts) \<Rightarrow>
          \<lparr> dt_success = True, deployments = ds, transactions = ts,
            dt_summary =
              \<lparr> totalDeployed = length ds,
                totalTransactions = length ts,
                successfulTx = length (filter (\<lambda>t. tx_status t = TxSuccess) ts),
                failedTx = length (filter (\<lambda>t. tx_status t = TxReverted) ts),
                totalGasUsed = sum_list (map dep_gasUsed ds @ map tx_gasUsed ts) \<rparr>,
            rpcUrl = url, dt_chainId = chainId cfg,
            dt_duration = int (now_dynamic_end (clock w)) - int (now_dynamic_start (clock w)),
            dt_error = None \<rparr>
      | Inl error \<Rightarrow>
          \<lparr> dt_success = False, deployments = [], transactions = [],
            dt_summary = \<lparr> totalDeployed = 0, totalTransactions = 0, successfulTx = 0,
                           failedTx = 0, totalGasUsed = 0 \<rparr>,
            rpcUrl = (case rpcUrls cfg of [] \<Rightarrow> [] | url # rest \<Rightarrow> url),
            dt_chainId = chainId cfg,
            dt_duration = int (now_dynamic_end (clock w)) - int (now_dynamic_start (clock w)),
            dt_error = Some (errorMsg error) \<rparr>)"

section \<open>Telegram notifications (telegram/telegramBot.ts)\<close>

text \<open>
  What a run does to the outside, in order: the stages it calls, the \<^verbatim>\<open>notify...\<close>
  functions it calls, the messages these hand to \<^verbatim>\<open>sendTelegramMessage\<close> with what
  became of each, and the report it writes.
\<close>

datatype stage =
    CloneRepository | ValidateSolidityRepo | RunStaticAnalysis | RunDynamicTests
  | GenerateFixes | CreatePR | SaveReport

datatype delivery = NotConfigured | Delivered | DeliveryFailed string

datatype event =
    Stage stage
  | Notify notificationCall
  | Sent message delivery
  | ReportWritten string report

text \<open>
  \<^verbatim>\<open>initTelegramBot\<close>: the module's \<^verbatim>\<open>bot\<close> is set when notifications are enabled, a token is
  configured and the constructor returns (\<open>constructed\<close>).
\<close>

definition initTelegramBot :: "config \<Rightarrow> bool \<Rightarrow> bool" where
  "initTelegramBot cfg constructed =
     (if \<not> enableTelegramNotifications cfg \<or> telegramToken cfg = [] then False else constructed)"

text \<open>
  \<^verbatim>\<open>sendTelegramMessage\<close>: an awaited call either returns (\<open>Inr\<close>) or throws (\<open>Inl\<close>); the
  \<^verbatim>\<open>catch\<close> around \<^verbatim>\<open>bot.sendMessage\<close> logs the error and returns.
\<close>

definition sendTelegramMessage :: "config \<Rightarrow> world \<Rightarrow> message \<Rightarrow> (thrown + unit) \<times> event list" where
  "sendTelegramMessage cfg w msg =
     (if \<not> bot w \<or> telegramChatId cfg = [] then (Inr (), [Sent msg NotConfigured])
      else (case sendMessage w (telegramChatId cfg) msg of
              Inr u \<Rightarrow> (Inr (), [Sent msg Delivered])
            | Inl err \<Rightarrow> (Inr (), [Sent msg (DeliveryFailed (errorMsg err))])))"

text \<open>
  Every \<^verbatim>\<open>notify...\<close> function first builds its message and then awaits
  \<^verbatim>\<open>sendTelegramMessage\<close>. The message is built outside the \<^verbatim>\<open>try\<close> of
  \<^verbatim>\<open>sendTelegramMessage\<close>: what building it throws leaves the \<^verbatim>\<open>notify...\<close> function.
\<close>

definition notify ::
  "config \<Rightarrow> world \<Rightarrow> notificationCall \<Rightarrow> thrown + message \<Rightarrow> (thrown + unit) \<times> event list" where
  "notify cfg w call built =
     (case built of
        Inl err \<Rightarrow> (Inl err, [Notify call])
      | Inr msg \<Rightarrow> (case sendTelegramMessage cfg w msg of (r, evs) \<Rightarrow> (r, Notify call # evs)))"

text \<open>\<^verbatim>\<open>forEach\<close> with a callback that can throw: the first throw ends it.\<close>

fun forEach :: "('a \<Rightarrow> thrown + 'b) \<Rightarrow> 'a list \<Rightarrow> thrown + 'b list" where
  "forEach f [] = Inr []"
| "forEach f (x # xs) =
     (case f x of
        Inl err \<Rightarrow> Inl err
      | Inr y \<Rightarrow> (case forEach f xs of Inl err \<Rightarrow> Inl err | Inr ys \<Rightarrow> Inr (y # ys)))"

text \<open>The elements of an array with \<^verbatim>\<open>index + 1\<close>.\<close>

fun numberedFrom :: "nat \<Rightarrow> 'a list \<Rightarrow> (nat \<times> 'a) list" where
  "numberedFrom n [] = []"
| "numberedFrom n (x # xs) = (n, x) # numberedFrom (n + 1) xs"

definition numbered :: "'a list \<Rightarrow> (nat \<times> 'a) list" where
  "numbered xs = numberedFrom 1 xs"

definition formatAuditStart :: "string \<Rightarrow> string \<Rightarrow> thrown + message" where
  "formatAuditStart repoUrl auditId = Inr (Message ''Audit Started'' [repoUrl, auditId])"

definition formatCloneComplete :: "string \<Rightarrow> nat \<Rightarrow> thrown + message" where
  "formatCloneComplete repoUrl contractCount =
     Inr (Message ''Clone Complete'' [repoUrl, showNat contractCount])"

text \<open>
  \<^verbatim>\<open>finding.description.substring(0, 100)\<close>: a string has the method; any other value has
  no such function, and calling it throws a TypeError (the wording is the engine's).
\<close>

fun descriptionSubstring :: "jsval \<Rightarrow> thrown + string" where
  "descriptionSubstring (Str s) = Inr (take 100 s)"
| "descriptionSubstring Undefined =
     Inl (Thrown ''Cannot read properties of undefined (reading 'substring')'')"
| "descriptionSubstring Null =
     Inl (Thrown ''Cannot read properties of null (reading 'substring')'')"
| "descriptionSubstring v = Inl (Thrown ''finding.description.substring is not a function'')"

text \<open>
  The three lines that the callback of \<^verbatim>\<open>topFindings.forEach\<close> appends for one finding:
  the title, the file and the line go through the conversion to a string, then the
  description is cut.
\<close>

definition formatTopFinding :: "nat \<times> rawFinding \<Rightarrow> thrown + string list" where
  "formatTopFinding entry =
     (case entry of (number, finding) \<Rightarrow>
     (case ToString (raw_title finding) of
        Inl err \<Rightarrow> Inl err
      | Inr titleText \<Rightarrow>
     (case ToString (raw_file finding) of
        Inl err \<Rightarrow> Inl err
      | Inr fileText \<Rightarrow>
     (case ToString (raw_line finding) of
        Inl err \<Rightarrow> Inl err
      | Inr lineText \<Rightarrow>
     (case descriptionSubstring (raw_description finding) of
        Inl err \<Rightarrow> Inl err
      | Inr excerpt \<Rightarrow> Inr [showNat number, titleText, fileText, lineText, excerpt])))))"

definition formatStaticAnalysisComplete :: "rawFinding list \<Rightarrow> rawFinding list \<Rightarrow> thrown + message" where
  "formatStaticAnalysisComplete findings topFindings =
     (let critical = length (filter (\<lambda>f. raw_severity f = Literal Critical) findings);
          high = length (filter (\<lambda>f. raw_severity f = Literal High) findings);
          medium = length (filter (\<lambda>f. raw_severity f = Literal Medium) findings);
          heading = [showNat critical, showNat high, showNat medium, showNat (length findings)]
      in if length topFindings > 0
         then (case forEach formatTopFinding (numbered topFindings) of
                 Inl err \<Rightarrow> Inl err
               | Inr entries \<Rightarrow>
                   Inr (Message ''Static Analysis Complete''
                          (heading @ [showNat (length topFindings)] @ concat entries)))
         else Inr (Message ''Static Analysis Complete'' heading))"

definition formatDynamicTestsComplete :: "nat \<Rightarrow> nat \<Rightarrow> rat \<Rightarrow> thrown + message" where
  "formatDynamicTestsComplete deployed txCount successRate =
     Inr (Message ''Dynamic Testing Complete'' [showNat deployed, showNat txCount])"

definition formatTopTitle :: "nat \<times> jsval \<Rightarrow> thrown + string list" where
  "formatTopTitle entry =
     (case entry of (number, finding) \<Rightarrow>
     (case ToString finding of
        Inl err \<Rightarrow> Inl err
      | Inr titleText \<Rightarrow> Inr [showNat number, titleText]))"

definition formatPRCreated :: "string \<Rightarrow> nat \<Rightarrow> jsval list \<Rightarrow> thrown + message" where
  "formatPRCreated prUrl fixesCount topFindings =
     (if length topFindings > 0
      then (case forEach formatTopTitle (numbered topFindings) of
              Inl err \<Rightarrow> Inl err
            | Inr entries \<Rightarrow>
                Inr (Message ''Pull Request Created'' ([prUrl, showNat fixesCount] @ concat entries)))
      else Inr (Message ''Pull Request Created'' [prUrl, showNat fixesCount]))"

text \<open>\<^verbatim>\<open>Math.round(result.duration / 1000 / 60)\<close>: the nearest whole number, a half going up.\<close>

definition durationMinutes :: "int \<Rightarrow> int" where
  "durationMinutes duration = (duration + 30000) div 60000"

definition formatAuditComplete :: "auditResult \<Rightarrow> thrown + message" where
  "formatAuditComplete result =
     Inr (Message ''Audit Complete!''
       ([ar_repoUrl result, ar_auditId result, showInt (durationMinutes (ar_duration result)),
         showNat (critical (ar_summary result)), showNat (high (ar_summary result)),
         showNat (medium (ar_summary result)), showNat (total (ar_summary result)),
         showNat (length (ar_fixes result))]
        @ (case ar_prUrl result of
             None \<Rightarrow> []
           | Some url \<Rightarrow> if url = [] then [] else [url])
        @ (case ar_dynamicTestResult result of
             None \<Rightarrow> []
           | Some dynamicResult \<Rightarrow>
               [showNat (totalDeployed (dt_summary dynamicResult)),
                showNat (totalTransactions (dt_summary dynamicResult))])
        @ [ar_auditId result]))"

definition formatAuditError :: "string \<Rightarrow> string \<Rightarrow> thrown + message" where
  "formatAuditError repoUrl err = Inr (Message ''Audit Failed'' [repoUrl, err])"

definition notifyAuditStart :: "config \<Rightarrow> world \<Rightarrow> string \<Rightarrow> string \<Rightarrow> (thrown + unit) \<times> event list" where
  "notifyAuditStart cfg w repoUrl auditId =
     notify cfg w (AuditStartCall repoUrl auditId) (formatAuditStart repoUrl auditId)"

definition notifyCloneComplete :: "config \<Rightarrow> world \<Rightarrow> string \<Rightarrow> nat \<Rightarrow> (thrown + unit) \<times> event list" where
  "notifyCloneComplete cfg w repoUrl contractCount =
     notify cfg w (CloneCompleteCall repoUrl contractCount)
       (formatCloneComplete repoUrl contractCount)"

definition notifyStaticAnalysisComplete ::
  "config \<Rightarrow> world \<Rightarrow> rawFinding list \<Rightarrow> rawFinding list \<Rightarrow> (thrown + unit) \<times> event list" where
  "notifyStaticAnalysisComplete cfg w findings topFindings =
     notify cfg w (StaticAnalysisCompleteCall findings topFindings)
       (formatStaticAnalysisComplete findings topFindings)"

definition notifyDynamicTestsComplete ::
  "config \<Rightarrow> world \<Rightarrow> nat \<Rightarrow> nat \<Rightarrow> rat \<Rightarrow> (thrown + unit) \<times> event list" where
  "notifyDynamicTestsComplete cfg w deployed txCount successRate =
     notify cfg w (DynamicTestsCompleteCall deployed txCount successRate)
       (formatDynamicTestsComplete deployed txCount successRate)"

definition notifyPRCreated ::
  "config \<Rightarrow> world \<Rightarrow> string \<Rightarrow> nat \<Rightarrow> jsval list \<Rightarrow> (thrown + unit) \<times> event list" where
  "notifyPRCreated cfg w prUrl fixesCount topFindings =
     notify cfg w (PRCreatedCall prUrl fixesCount topFindings)
       (formatPRCreated prUrl fixesCount topFindings)"

definition notifyAuditComplete :: "config \<Rightarrow> world \<Rightarrow> auditResult \<Rightarrow> (thrown + unit) \<times> event list" where
  "notifyAuditComplete cfg w result =
     notify cfg w (AuditCompleteCall result) (formatAuditComplete result)"

definition notifyAuditError :: "config \<Rightarrow> world \<Rightarrow> string \<Rightarrow> string \<Rightarrow> (thrown + unit) \<times> event list" where
  "notifyAuditError cfg w repoUrl err =
     notify cfg w (AuditErrorCall repoUrl err) (formatAuditError repoUrl err)"

section \<open>The coordinator: runAudit (agent/smartAuditAgent.ts)\<close>

text \<open>
  Sequencing of awaited calls: a step gives its value or what it throws, with the events
  it caused; a thrown value skips the steps after it, as it leaves the \<^verbatim>\<open>try\<close> block.
\<close>

definition andThen ::
  "(thrown + 'a) \<times> event list \<Rightarrow> ('a \<Rightarrow> (thrown + 'b) \<times> event list) \<Rightarrow> (thrown + 'b) \<times> event list" where
  "andThen m k =
     (case m of
        (Inl err, evs) \<Rightarrow> (Inl err, evs)
      | (Inr x, evs) \<Rightarrow> (case k x of (r, evs') \<Rightarrow> (r, evs @ evs')))"

definition returns :: "'a \<Rightarrow> (thrown + 'a) \<times> event list" where
  "returns x = (Inr x, [])"

text \<open>\<^verbatim>\<open>throw new Error(msg)\<close>\<close>

definition throws :: "string \<Rightarrow> (thrown + 'a) \<times> event list" where
  "throws msg = (Inl (Thrown msg), [])"

definition calls :: "stage \<Rightarrow> thrown + 'a \<Rightarrow> (thrown + 'a) \<times> event list" where
  "calls s r = (r, [Stage s])"

text \<open>An optional string inside a template literal: a missing one prints as \<^verbatim>\<open>undefined\<close>.\<close>

definition interpolate :: "string option \<Rightarrow> string" where
  "interpolate v = (case v of None \<Rightarrow> ''undefined'' | Some s \<Rightarrow> s)"

text \<open>The two gates of \<^verbatim>\<open>runAudit\<close>: the request's flag and the configuration's flag.\<close>

definition runAudit_dynamicGate :: "config \<Rightarrow> auditRequest \<Rightarrow> bool" where
  "runAudit_dynamicGate cfg request =
     (rq_runDynamicTests request = Some True \<and> enableDynamicTesting cfg)"

definition runAudit_prGate :: "config \<Rightarrow> auditRequest \<Rightarrow> bool" where
  "runAudit_prGate cfg request =
     (rq_createPullRequest request = Some True \<and> enableAutoPR cfg)"

text \<open>
  The two gates of \<^verbatim>\<open>executeAuditTool\<close> (and of \<^verbatim>\<open>planAuditTool\<close>, without the RPC URLs):
  the configuration's flag and the credentials.
\<close>

definition executeAuditTool_dynamicGate :: "config \<Rightarrow> bool" where
  "executeAuditTool_dynamicGate cfg =
     (enableDynamicTesting cfg \<and> testnetPrivateKey cfg \<noteq> [] \<and> length (rpcUrls cfg) > 0)"

definition executeAuditTool_prGate :: "config \<Rightarrow> bool" where
  "executeAuditTool_prGate cfg = (enableAutoPR cfg \<and> githubToken cfg \<noteq> [])"

text \<open>Dynamic tests (optional).\<close>

definition dynamicTestsStage ::
  "config \<Rightarrow> world \<Rightarrow> auditRequest \<Rightarrow> cloneRepoResult \<Rightarrow> (thrown + dynamicTestResult option) \<times> event list" where
  "dynamicTestsStage cfg w request cloneResult =
     (if runAudit_dynamicGate cfg request then
        andThen (calls RunDynamicTests (Inr (runDynamicTests cfg w (cr_localPath cloneResult))))
          (\<lambda>dynamicResult.
        andThen
          (if dt_success dynamicResult then
             (let s = dt_summary dynamicResult;
                  successRate =
                    (if totalTransactions s > 0
                     then (of_nat (successfulTx s) / of_nat (totalTransactions s)) * 100
                     else 0)
              in notifyDynamicTestsComplete cfg w (totalDeployed s) (totalTransactions s) successRate)
           else returns ())
          (\<lambda>u. returns (Some dynamicResult)))
      else returns None)"

text \<open>Create PR (optional). A missing or empty \<^verbatim>\<open>prUrl\<close> is falsy: no message then.\<close>

definition createPRStage ::
  "config \<Rightarrow> world \<Rightarrow> auditRequest \<Rightarrow> string \<Rightarrow> cloneRepoResult \<Rightarrow> staticAnalysisResult \<Rightarrow>
   rawFinding list \<Rightarrow> dynamicTestResult option \<Rightarrow> fixesResult \<Rightarrow> (thrown + string option) \<times> event list" where
  "createPRStage cfg w request auditId cloneResult staticResult topFindings dynamicResult fixesResult =
     (if runAudit_prGate cfg request then
        andThen
          (calls CreatePR
             (createPR w
                \<lparr> pi_repoPath = cr_localPath cloneResult,
                  pi_repoUrl = rq_repoUrl request,
                  pi_findings = sa_findings staticResult,
                  pi_fixes = fx_fixes fixesResult,
                  pi_dynamicTestResult = dynamicResult,
                  pi_auditId = auditId \<rparr>))
          (\<lambda>prResult.
             (case pr_prUrl prResult of
                None \<Rightarrow> returns None
              | Some url \<Rightarrow>
                  if url = [] then returns (Some url)
                  else andThen
                         (notifyPRCreated cfg w url (length (fx_fixes fixesResult))
                            (map raw_title topFindings))
                         (\<lambda>u. returns (Some url))))
      else returns None)"

text \<open>Save report: \<^verbatim>\<open>memory/<auditId>/audit-report.json\<close> under the working directory.\<close>

definition reportDir :: "string \<Rightarrow> string" where
  "reportDir auditId = ''memory/'' @ auditId"

definition saveReport :: "world \<Rightarrow> string \<Rightarrow> report \<Rightarrow> (thrown + unit) \<times> event list" where
  "saveReport w auditId rep =
     (case writeReport w (reportDir auditId) rep of
        Inr u \<Rightarrow> (Inr (), [Stage SaveReport, ReportWritten (reportDir auditId) rep])
      | Inl err \<Rightarrow> (Inl err, [Stage SaveReport]))"

text \<open>
  The body of the \<^verbatim>\<open>try\<close>. \<^verbatim>\<open>staticResult.findings.sort(...)\<close> sorts the array of
  \<^verbatim>\<open>staticResult\<close> itself and returns that same array: from there on
  \<^verbatim>\<open>staticResult.findings\<close> is the array as the sort left it, which the update of \<open>sa_findings\<close>
  records;
  \<^verbatim>\<open>slice\<close> then copies the first five.
\<close>

definition runAuditTry ::
  "config \<Rightarrow> world \<Rightarrow> auditRequest \<Rightarrow> string \<Rightarrow> (thrown + auditResult) \<times> event list" where
  "runAuditTry cfg w request auditId =
     andThen
       (calls CloneRepository
          (Inr (cloneRepository w (rq_repoUrl request) (orString (rq_branch request) ''main''))))
       (\<lambda>cloneResult.
     if \<not> cr_success cloneResult
     then throws (''Clone failed: '' @ interpolate (cr_error cloneResult))
     else
     andThen
       (calls ValidateSolidityRepo (Inr (validateSolidityRepo w (cr_localPath cloneResult))))
       (\<lambda>validationResult.
     if \<not> isValid validationResult
     then throws (''No Solidity contracts found: '' @ interpolate (v_error validationResult))
     else
     andThen
       (notifyCloneComplete cfg w (rq_repoUrl request) (length (contractFiles validationResult)))
       (\<lambda>u.
     andThen
       (calls RunStaticAnalysis
          (Inr (runStaticAnalysis (int (now_static_start (clock w))) (int (now_static_end (clock w)))
                  (analyzerRuns w (cr_localPath cloneResult)))))
       (\<lambda>analysed.
     if \<not> sa_success analysed
     then throws (''Static analysis failed: '' @ interpolate (sa_error analysed))
     else
     (let staticResult = analysed \<lparr> sa_findings := sortFindings w (sa_findings analysed) \<rparr>;
          topFindings = slice0 5 (sa_findings staticResult)
      in
     andThen (notifyStaticAnalysisComplete cfg w (sa_findings staticResult) topFindings)
       (\<lambda>u.
     andThen (dynamicTestsStage cfg w request cloneResult)
       (\<lambda>dynamicResult.
     andThen
       (calls GenerateFixes (generateFixes w (sa_findings staticResult) (cr_localPath cloneResult)))
       (\<lambda>fixesResult.
     andThen
       (createPRStage cfg w request auditId cloneResult staticResult topFindings dynamicResult
          fixesResult)
       (\<lambda>url.
     andThen
       (saveReport w auditId
          \<lparr> rp_auditId = auditId,
            rp_repoUrl = rq_repoUrl request,
            rp_timestamp = now_report (clock w),
            staticAnalysis = staticResult,
            dynamicTests = dynamicResult,
            rp_fixes = fixesResult,
            rp_prUrl = url \<rparr>)
       (\<lambda>u.
     (let result =
            \<lparr> ar_success = True,
              ar_auditId = auditId,
              ar_repoUrl = rq_repoUrl request,
              ar_findings = sa_findings staticResult,
              ar_fixes = fx_fixes fixesResult,
              ar_dynamicTestResult = dynamicResult,
              ar_prUrl = url,
              ar_summary = sa_summary staticResult,
              ar_duration = int (now_end (clock w)) - int (now_startTime (clock w)),
              ar_error = None \<rparr>
      in andThen (notifyAuditComplete cfg w result) (\<lambda>u. returns result))))))))))))"

text \<open>The template \<^verbatim>\<open>`audit-${Date.now()}`\<close>, for a reading \<open>t\<close> of the clock.\<close>

definition auditIdAt :: "nat \<Rightarrow> string" where
  "auditIdAt t = ''audit-'' @ showNat t"

text \<open>The object that the \<^verbatim>\<open>catch\<close> of \<^verbatim>\<open>runAudit\<close> returns.\<close>

definition failureResult :: "world \<Rightarrow> auditRequest \<Rightarrow> string \<Rightarrow> string \<Rightarrow> auditResult" where
  "failureResult w request auditId errorMessage =
     \<lparr> ar_success = False,
       ar_auditId = auditId,
       ar_repoUrl = rq_repoUrl request,
       ar_findings = [],
       ar_fixes = [],
       ar_dynamicTestResult = None,
       ar_prUrl = None,
       ar_summary = \<lparr> critical = 0, high = 0, medium = 0, low = 0, info = 0, total = 0 \<rparr>,
       ar_duration = int (now_end (clock w)) - int (now_startTime (clock w)),
       ar_error = Some errorMessage \<rparr>"

text \<open>
  \<^verbatim>\<open>runAudit\<close>: the identifier, the start message, the \<^verbatim>\<open>try\<close>, and the \<^verbatim>\<open>catch\<close> that
  sends the error message and turns what was thrown into a result with
  \<^verbatim>\<open>success: false\<close>. The events of the \<^verbatim>\<open>try\<close> stay.
\<close>

definition runAudit :: "config \<Rightarrow> world \<Rightarrow> auditRequest \<Rightarrow> (thrown + auditResult) \<times> event list" where
  "runAudit cfg w request =
     (let auditId = auditIdAt (now_auditId (clock w)) in
      andThen (notifyAuditStart cfg w (rq_repoUrl request) auditId)
        (\<lambda>u.
           (case runAuditTry cfg w request auditId of
              (Inr result, evs) \<Rightarrow> (Inr result, evs)
            | (Inl err, evs) \<Rightarrow>
                andThen ((Inr (), evs) :: (thrown + unit) \<times> event list)
                  (\<lambda>u.
                andThen (notifyAuditError cfg w (rq_repoUrl request) (errorMsg err))
                  (\<lambda>u.
                returns (failureResult w request auditId (errorMsg err)))))))"

text \<open>The stages among the events of a run.\<close>

fun stagesOf :: "event list \<Rightarrow> stage list" where
  "stagesOf [] = []"
| "stagesOf (Stage s # evs) = s # stagesOf evs"
| "stagesOf (e # evs) = stagesOf evs"

fun reportsOf :: "event list \<Rightarrow> (string \<times> report) list" where
  "reportsOf [] = []"
| "reportsOf (ReportWritten dir rep # evs) = (dir, rep) # reportsOf evs"
| "reportsOf (e # evs) = reportsOf evs"

section \<open>The server and its registry (server.ts)\<close>

datatype runStatus = Queued | Running | Completed | Failed

record progress =
  pg_step :: string
  pg_stepNumber :: nat
  pg_totalSteps :: nat
  pg_message :: string

record auditStatus =
  as_id :: string
  as_repoUrl :: string
  as_branch :: string
  status :: runStatus
  as_progress :: "progress option"
  startedAt :: nat
  completedAt :: "nat option"
  as_result :: "auditResult option"
  as_error :: "string option"

text \<open>
  The \<^verbatim>\<open>audits\<close> map holds references: the background job keeps the \<^verbatim>\<open>audit\<close> object it
  was started with and writes to that object, whatever the map holds under its key by then.
  So the objects live in a store, addressed by their position, and the map (in insertion
  order, as a JavaScript \<^verbatim>\<open>Map\<close>) takes an identifier to an address.
\<close>

record serverState =
  objects :: "auditStatus list"
  audits :: "(string \<times> nat) list"

text \<open>\<^verbatim>\<open>Map.prototype.set\<close>: an existing key keeps its place, a new one goes last.\<close>

fun mapSet :: "'k \<Rightarrow> 'v \<Rightarrow> ('k \<times> 'v) list \<Rightarrow> ('k \<times> 'v) list" where
  "mapSet k v [] = [(k, v)]"
| "mapSet k v (p # ps) = (if fst p = k then (k, v) # ps else p # mapSet k v ps)"

text \<open>The body of the request, with the defaults of the destructuring for missing fields.\<close>

record startBody =
  b_repoUrl :: "string option"
  b_branch :: "string option"
  b_runDynamicTests :: "bool option"
  b_createPullRequest :: "bool option"

definition withDefault :: "'a option \<Rightarrow> 'a \<Rightarrow> 'a" where
  "withDefault v d = (case v of None \<Rightarrow> d | Some x \<Rightarrow> x)"

datatype response = BadRequest string | Started string

text \<open>
  \<^verbatim>\<open>POST /api/audit/start\<close>, up to its response: the run is registered as queued and the
  job is handed to \<^verbatim>\<open>setImmediate\<close> (the address of its object and its request).
\<close>

definition postAuditStart ::
  "nat \<Rightarrow> startBody \<Rightarrow> serverState \<Rightarrow> response \<times> serverState \<times> (nat \<times> auditRequest) option" where
  "postAuditStart now body st =
     (if orString (b_repoUrl body) [] = [] then (BadRequest ''Repository URL is required'', st, None)
      else
        (let url = orString (b_repoUrl body) [];
             branch = withDefault (b_branch body) ''main'';
             auditId = auditIdAt now;
             audit = \<lparr> as_id = auditId, as_repoUrl = url, as_branch = branch, status = Queued,
                       as_progress = None, startedAt = now, completedAt = None,
                       as_result = None, as_error = None \<rparr>;
             ref = length (objects st)
         in (Started auditId,
             \<lparr> objects = objects st @ [audit], audits = mapSet auditId ref (audits st) \<rparr>,
             Some (ref,
                   \<lparr> rq_repoUrl = url, rq_branch = Some branch,
                     rq_runDynamicTests = Some (withDefault (b_runDynamicTests body) True),
                     rq_createPullRequest = Some (withDefault (b_createPullRequest body) True) \<rparr>))))"

definition modifyObject :: "nat \<Rightarrow> (auditStatus \<Rightarrow> auditStatus) \<Rightarrow> serverState \<Rightarrow> serverState" where
  "modifyObject ref f st = st \<lparr> objects := (objects st) [ref := f (objects st ! ref)] \<rparr>"

text \<open>
  The job run by \<^verbatim>\<open>setImmediate\<close>. The interval timer only rewrites \<^verbatim>\<open>progress\<close> while the
  run is running, and \<^verbatim>\<open>progress\<close> is deleted on both ways out; its ticks are left out.
\<close>

definition auditJob ::
  "config \<Rightarrow> world \<Rightarrow> nat \<Rightarrow> auditRequest \<Rightarrow> serverState \<Rightarrow> serverState \<times> event list" where
  "auditJob cfg w ref request st =
     (let running =
            modifyObject ref
              (\<lambda>a. a \<lparr> status := Running,
                       as_progress := Some \<lparr> pg_step = ''clone'', pg_stepNumber = 1,
                                             pg_totalSteps = 6,
                                             pg_message = ''Cloning repository...'' \<rparr> \<rparr>) st
      in (case runAudit cfg w request of
            (Inr result, evs) \<Rightarrow>
              (modifyObject ref
                 (\<lambda>a. a \<lparr> status := Completed, completedAt := Some (now_completed (clock w)),
                          as_result := Some result, as_progress := None \<rparr>) running,
               evs)
          | (Inl err, evs) \<Rightarrow>
              (modifyObject ref
                 (\<lambda>a. a \<lparr> status := Failed, completedAt := Some (now_completed (clock w)),
                          as_error := Some (errorMsg err), as_progress := None \<rparr>) running,
               evs)))"

text \<open>A request and its job, run to the end.\<close>

definition startAudit ::
  "config \<Rightarrow> world \<Rightarrow> startBody \<Rightarrow> serverState \<Rightarrow> response \<times> serverState \<times> event list" where
  "startAudit cfg w body st =
     (case postAuditStart (now_request (clock w)) body st of
        (resp, st', None) \<Rightarrow> (resp, st', [])
      | (resp, st', Some (ref, request)) \<Rightarrow>
          (case auditJob cfg w ref request st' of (st'', evs) \<Rightarrow> (resp, st'', evs)))"

text \<open>\<^verbatim>\<open>GET /api/audit/:id\<close>\<close>

definition getAudit :: "serverState \<Rightarrow> string \<Rightarrow> auditStatus option" where
  "getAudit st ident =
     (case map_of (audits st) ident of None \<Rightarrow> None | Some ref \<Rightarrow> Some (objects st ! ref))"

definition emptyServer :: serverState where
  "emptyServer = \<lparr> objects = [], audits = [] \<rparr>"

section \<open>Auxiliary notions for the statements\<close>

text \<open>The result a run returned, if it returned one.\<close>

definition resultOf :: "(thrown + auditResult) \<times> event list \<Rightarrow> auditResult option" where
  "resultOf run = (case fst run of Inr r \<Rightarrow> Some r | Inl err \<Rightarrow> None)"

text \<open>Every report among the events lies in the directory of \<open>ident\<close> and carries \<open>ident\<close>.\<close>

definition reportsCarry :: "string \<Rightarrow> event list \<Rightarrow> bool" where
  "reportsCarry ident evs =
     list_all (\<lambda>(dir, rep). dir = reportDir ident \<and> rp_auditId rep = ident) (reportsOf evs)"

text \<open>Reading a decimal numeral back, the inverse of \<open>showNat\<close>.\<close>

definition readNat :: "string \<Rightarrow> nat" where
  "readNat s = foldl (\<lambda>acc c. 10 * acc + (of_char c - 48)) 0 s"



text \<open>The number of findings whose severity is a member of \<^verbatim>\<open>Object.prototype\<close>.\<close>

definition inheritedSeverities :: "rawFinding list \<Rightarrow> nat" where
  "inheritedSeverities findings =
     length (filter (\<lambda>f. case raw_severity f of Inherited name \<Rightarrow> True | Literal s \<Rightarrow> False) findings)"

text \<open>The five counts of a summary, added up.\<close>

definition bucketSum :: "summary \<Rightarrow> nat" where
  "bucketSum s = critical s + high s + medium s + low s + info s"

section \<open>Concrete inputs\<close>

definition exampleFinding :: "string \<Rightarrow> severity \<Rightarrow> confidence \<Rightarrow> finding" where
  "exampleFinding name s c =
     \<lparr> id_f = name, file_f = ''contracts/Vault.sol'', line = 45, title = name,
       description = ''External call before state update'', severity = s, confidence = c,
       recommendation = ''Review the code carefully'', tool = ''Slither'',
       category = ''general'' \<rparr>"

text \<open>A detector of a Slither report, and a report with given detectors.\<close>

definition exampleDetector :: "string \<Rightarrow> string \<Rightarrow> string \<Rightarrow> jsval" where
  "exampleDetector check impact conf =
     Obj [(''check'', Str check),
          (''description'', Str ''External call before state update''),
          (''impact'', Str impact),
          (''confidence'', Str conf),
          (''elements'',
             Arr [Obj [(''source_mapping'',
                          Obj [(''filename_relative'', Str ''contracts/Vault.sol''),
                               (''lines'', Arr [Num 45, Num 46])])]])]"

definition exampleReport :: "jsval list \<Rightarrow> slitherRun" where
  "exampleReport detectors =
     SlitherReport (Obj [(''success'', Bool True), (''results'', Obj [(''detectors'', Arr detectors)])])"

text \<open>The finding that the Slither adapter builds from such a detector.\<close>

definition exampleSlitherFinding :: "string \<Rightarrow> string \<Rightarrow> severityValue \<Rightarrow> string \<Rightarrow> rawFinding" where
  "exampleSlitherFinding ident check sev conf =
     \<lparr> raw_id = ident, raw_file = Str ''contracts/Vault.sol'', raw_line = Num 45,
       raw_title = Str check, raw_description = Str ''External call before state update'',
       raw_severity = sev, raw_confidence = conf,
       raw_recommendation = Str ''Review the code carefully'', raw_tool = ''Slither'',
       raw_category = Str check \<rparr>"

definition exampleSolhintOutput :: solhintRun where
  "exampleSolhintOutput =
     SolhintOutput
       (Arr [Obj [(''filePath'', Str ''contracts/Vault.sol''),
                  (''reports'',
                     Arr [Obj [(''line'', Num 2), (''ruleId'', Str ''compiler-version''),
                               (''message'', Str ''Compiler version must be fixed''),
                               (''severity'', Str ''warning'')]])]])"

definition exampleMatch :: patternMatch where
  "exampleMatch =
     \<lparr> pm_file = ''contracts/Vault.sol'', pm_index = 30,
       pm_text = ''    require(tx.origin == owner);'', pm_pattern = TxOrigin \<rparr>"

definition exampleClock :: clockReadings where
  "exampleClock =
     \<lparr> now_request = 1000, now_auditId = 1001, now_startTime = 1001, now_static_start = 1200,
       now_static_end = 1500, now_dynamic_start = 1600, now_dynamic_end = 1700,
       now_report = 1800, now_end = 1900, now_completed = 1901 \<rparr>"

definition exampleConfig :: config where
  "exampleConfig =
     \<lparr> enableDynamicTesting = True, enableAutoPR = True, enableTelegramNotifications = True,
       githubToken = ''ghp_token'', testnetPrivateKey = ''0xkey'',
       rpcUrls = [''https://sepolia-rollup.arbitrum.io/rpc''], chainId = 421614,
       telegramToken = ''75:token'', telegramChatId = ''-100'' \<rparr>"

text \<open>
  A world where everything works except the dynamic tests, whose compilation fails: the
  three analyzers report four findings, not in the order of their scores. The engine
  leaves an array it is free to arrange as it is.
\<close>

definition exampleWorld :: world where
  "exampleWorld =
     \<lparr> clock = exampleClock,
       gitClone = (\<lambda>url branch. Inr (''cloned-repos/vault-1001'', ''abc123'')),
       findSolFiles = (\<lambda>path. Inr [''contracts/Vault.sol'']),
       analyzerRuns =
         (\<lambda>path. Inr (exampleReport [exampleDetector ''reentrancy-benign'' ''Low'' ''Medium'',
                                      exampleDetector ''arbitrary-send-eth'' ''High'' ''High''],
                       exampleSolhintOutput, [exampleMatch])),
       enginePermutation = (\<lambda>findings. [0..<length findings]),
       rpcLatency = (\<lambda>url. Some 20),
       deployAndTest = (\<lambda>path url key. Inl (Thrown ''Contract compilation failed'')),
       generateFixes = (\<lambda>fs path. Inr \<lparr> fx_fixes = [''fix for SLTH-002''] \<rparr>),
       createPR = (\<lambda>input. Inr \<lparr> pr_success = True,
                                   pr_prUrl = Some ''https://github.com/acme/vault/pull/7'',
                                   pr_error = None \<rparr>),
       writeReport = (\<lambda>dir rep. Inr ()),
       bot = True,
       sendMessage = (\<lambda>chat msg. Inr ()) \<rparr>"

definition exampleRequest :: auditRequest where
  "exampleRequest =
     \<lparr> rq_repoUrl = ''https://github.com/acme/vault'', rq_branch = Some ''main'',
       rq_runDynamicTests = Some True, rq_createPullRequest = Some True \<rparr>"

definition exampleBody :: startBody where
  "exampleBody =
     \<lparr> b_repoUrl = Some ''https://github.com/acme/vault'', b_branch = None,
       b_runDynamicTests = None, b_createPullRequest = None \<rparr>"

text \<open>
  Three Slither reports: one whose detector has a number where its description should be,
  one with an impact that names a member of \<^verbatim>\<open>Object.prototype\<close>, and one with a
  confidence that is none of High, Medium and Low.
\<close>

definition numericDescriptionReport :: slitherRun where
  "numericDescriptionReport =
     exampleReport
       [Obj [(''check'', Str ''reentrancy-eth''), (''description'', Num 42),
             (''impact'', Str ''High''), (''confidence'', Str ''High'')]]"

definition inheritedSeverityReport :: slitherRun where
  "inheritedSeverityReport =
     exampleReport [exampleDetector ''shadowing-state'' ''constructor'' ''High'',
                    exampleDetector ''reentrancy-benign'' ''Low'' ''Medium'']"

definition unmappedConfidenceReport :: slitherRun where
  "unmappedConfidenceReport =
     exampleReport [exampleDetector ''low-level-calls'' ''Low'' ''High'',
                    exampleDetector ''unused-return'' ''Medium'' ''Informational'',
                    exampleDetector ''arbitrary-send-eth'' ''High'' ''High'',
                    exampleDetector ''divide-before-multiply'' ''Medium'' ''Medium'']"

text \<open>The world of the examples with another outcome of the analyzers.\<close>

definition exampleWorldWith :: "slitherRun \<Rightarrow> world" where
  "exampleWorldWith slither =
     exampleWorld \<lparr> analyzerRuns := (\<lambda>path. Inr (slither, SolhintBlank, [])) \<rparr>"

section \<open>Properties of the scorer\<close>

lemma severityScores_pos: "0 < severityScores s"
  by (cases s) simp_all

lemma confidenceScores_pos: "0 < confidenceScores c"
  by (cases c) simp_all

lemma severityScores_strict_mono:
  "severityRank s < severityRank t \<Longrightarrow> severityScores s < severityScores t"
  by (cases s; cases t) simp_all

lemma confidenceScores_strict_mono:
  "confidenceRank c < confidenceRank d \<Longrightarrow> confidenceScores c < confidenceScores d"
  by (cases c; cases d) simp_all

text \<open>
  Claim C4. The priority score of a finding is the product of its severity weight and its
  confidence weight, the weights are info 1, low 2, medium 4, high 7, critical 10 and
  low 1, medium 2, high 3, and the score grows strictly with the severity at a fixed
  confidence and strictly with the confidence at a fixed severity.
\<close>

theorem calculatePriorityScore_product_monotone:
  "calculatePriorityScore f = severityScores (severity f) * confidenceScores (confidence f)
   \<and> map severityScores [Info, Low, Medium, High, Critical] = [1, 2, 4, 7, 10]
   \<and> map confidenceScores [ConfLow, ConfMedium, ConfHigh] = [1, 2, 3]
   \<and> (confidence g = confidence f \<longrightarrow> severityRank (severity f) < severityRank (severity g)
        \<longrightarrow> calculatePriorityScore f < calculatePriorityScore g)
   \<and> (severity h = severity f \<longrightarrow> confidenceRank (confidence f) < confidenceRank (confidence h)
        \<longrightarrow> calculatePriorityScore f < calculatePriorityScore h)"
proof -
  have sev: "calculatePriorityScore f < calculatePriorityScore g"
    if "confidence g = confidence f" "severityRank (severity f) < severityRank (severity g)"
  proof -
    have "severityScores (severity f) < severityScores (severity g)"
      using that(2) by (rule severityScores_strict_mono)
    then show ?thesis
      using that(1) confidenceScores_pos [of "confidence f"]
      by (simp add: calculatePriorityScore_def)
  qed
  have conf: "calculatePriorityScore f < calculatePriorityScore h"
    if "severity h = severity f" "confidenceRank (confidence f) < confidenceRank (confidence h)"
  proof -
    have "confidenceScores (confidence f) < confidenceScores (confidence h)"
      using that(2) by (rule confidenceScores_strict_mono)
    then show ?thesis
      using that(1) severityScores_pos [of "severity f"]
      by (simp add: calculatePriorityScore_def)
  qed
  show ?thesis
    using sev conf by (simp add: calculatePriorityScore_def)
qed

theorem calculatePriorityScore_product_monotone_witness:
  "confidence (exampleFinding ''B'' High ConfMedium) = confidence (exampleFinding ''A'' Medium ConfMedium)
   \<and> severityRank (severity (exampleFinding ''A'' Medium ConfMedium))
       < severityRank (severity (exampleFinding ''B'' High ConfMedium))
   \<and> severity (exampleFinding ''C'' Medium ConfHigh) = severity (exampleFinding ''A'' Medium ConfMedium)
   \<and> confidenceRank (confidence (exampleFinding ''A'' Medium ConfMedium))
       < confidenceRank (confidence (exampleFinding ''C'' Medium ConfHigh))
   \<and> calculatePriorityScore (exampleFinding ''A'' Medium ConfMedium) = 8
   \<and> calculatePriorityScore (exampleFinding ''A'' Medium ConfMedium)
       < calculatePriorityScore (exampleFinding ''B'' High ConfMedium)
   \<and> calculatePriorityScore (exampleFinding ''A'' Medium ConfMedium)
       < calculatePriorityScore (exampleFinding ''C'' Medium ConfHigh)"
  using calculatePriorityScore_product_monotone
    [of "exampleFinding ''A'' Medium ConfMedium" "exampleFinding ''B'' High ConfMedium"
        "exampleFinding ''C'' Medium ConfHigh"]
  by (simp add: exampleFinding_def)

section \<open>Properties of the summary\<close>

lemma showNat_digits:
  "showNat 0 = ''0''" "showNat 1 = ''1''" "showNat 2 = ''2''" "showNat 3 = ''3''"
  "showNat 4 = ''4''" "showNat 5 = ''5''" "showNat 6 = ''6''"
  "showNat (Suc 0) = ''1''" "showNat (Suc (Suc 0)) = ''2''"
  "showNat (Suc (Suc (Suc 0))) = ''3''" "showNat (Suc (Suc (Suc (Suc 0)))) = ''4''"
  "showNat (Suc (Suc (Suc (Suc (Suc 0))))) = ''5''"
  by code_simp+

text \<open>The total of a summary is the number of findings, on both paths.\<close>

lemma runStaticAnalysis_total:
  "total (sa_summary (runStaticAnalysis startTime endTime outcome))
     = length (sa_findings (runStaticAnalysis startTime endTime outcome))"
  by (simp add: runStaticAnalysis_def Let_def split: sum.splits prod.splits)

text \<open>
  The five filters of the summary miss exactly the findings whose severity is none of the
  five literals.
\<close>

lemma severity_buckets_partition:
  "length (filter (\<lambda>f. raw_severity f = Literal Critical) xs)
   + length (filter (\<lambda>f. raw_severity f = Literal High) xs)
   + length (filter (\<lambda>f. raw_severity f = Literal Medium) xs)
   + length (filter (\<lambda>f. raw_severity f = Literal Low) xs)
   + length (filter (\<lambda>f. raw_severity f = Literal Info) xs)
   + inheritedSeverities xs = length xs"
proof (induction xs)
  case Nil
  show ?case by (simp add: inheritedSeverities_def)
next
  case (Cons x xs)
  show ?case
  proof (cases "raw_severity x")
    case (Literal s)
    with Cons show ?thesis by (cases s) (simp_all add: inheritedSeverities_def)
  next
    case (Inherited name)
    with Cons show ?thesis by (simp add: inheritedSeverities_def)
  qed
qed

lemma runStaticAnalysis_buckets:
  "bucketSum (sa_summary (runStaticAnalysis startTime endTime outcome))
   + inheritedSeverities (sa_findings (runStaticAnalysis startTime endTime outcome))
   = total (sa_summary (runStaticAnalysis startTime endTime outcome))"
proof (cases outcome)
  case (Inl err)
  then show ?thesis
    by (simp add: runStaticAnalysis_def bucketSum_def inheritedSeverities_def)
next
  case (Inr runs)
  obtain a b c where "runs = (a, b, c)" by (cases runs) auto
  with Inr show ?thesis
    using severity_buckets_partition [of "runSlither a @ runSolhint b @ runPatternChecks c"]
    by (simp add: runStaticAnalysis_def Let_def bucketSum_def)
qed

text \<open>So the counts add up to the total when every severity is one of the five literals.\<close>

lemma runStaticAnalysis_buckets_literal:
  assumes "inheritedSeverities (sa_findings (runStaticAnalysis startTime endTime outcome)) = 0"
  shows "bucketSum (sa_summary (runStaticAnalysis startTime endTime outcome))
         = total (sa_summary (runStaticAnalysis startTime endTime outcome))"
  using runStaticAnalysis_buckets [of startTime endTime outcome] assms by simp

text \<open>What the Slither adapter builds from the concrete detectors.\<close>

lemma toLowerCase_examples:
  "toLowerCase ''High'' = ''high''"
  "toLowerCase ''Medium'' = ''medium''"
  "toLowerCase ''Low'' = ''low''"
  "toLowerCase ''Informational'' = ''informational''"
  by code_simp+

lemma padStart_digit: "padStart 3 c [d] = [c, c, d]"
  by (simp add: padStart_def numeral_2_eq_2)

lemmas adapter_defs = slitherFinding_def get_def optGet_def nullish_def orElse_def
  firstSourceMapping_def severityOf_def readSeverityMap_def SEVERITY_MAP_def
  objectPrototypeMembers_def slitherConfidence_def reportDetectors_def
  solhintFinding_def patternFinding_def runPatternChecks_def padStart_digit showInt_def

lemma inherited_severity_findings:
  "runSlither inheritedSeverityReport =
     [exampleSlitherFinding ''SLTH-001'' ''shadowing-state'' (Inherited ''constructor'') ''high'',
      exampleSlitherFinding ''SLTH-002'' ''reentrancy-benign'' (Literal Low) ''medium'']"
  by (simp add: inheritedSeverityReport_def exampleReport_def exampleDetector_def
      exampleSlitherFinding_def adapter_defs showNat_digits toLowerCase_examples)

text \<open>
  Claim C5, at a Slither report with two detectors, one of impact \<^verbatim>\<open>constructor\<close> and
  one of impact \<^verbatim>\<open>Low\<close>. \<^verbatim>\<open>SEVERITY_MAP['constructor']\<close> is the inherited
  \<^verbatim>\<open>Object.prototype.constructor\<close>, which is truthy, so the first finding has a severity
  that none of the five filters counts. The static analysis succeeds with two findings and
  a total of 2, as the claim says, but its five severity counts add up to 1, not to the
  total.
\<close>

theorem inherited_severity_breaks_summary:
  "sa_success (runStaticAnalysis 1200 1500 (Inr (inheritedSeverityReport, SolhintBlank, [])))
   \<and> map raw_severity
        (sa_findings (runStaticAnalysis 1200 1500 (Inr (inheritedSeverityReport, SolhintBlank, []))))
      = [Inherited ''constructor'', Literal Low]
   \<and> length (sa_findings (runStaticAnalysis 1200 1500 (Inr (inheritedSeverityReport, SolhintBlank, []))))
      = 2
   \<and> sa_summary (runStaticAnalysis 1200 1500 (Inr (inheritedSeverityReport, SolhintBlank, [])))
      = \<lparr> critical = 0, high = 0, medium = 0, low = 1, info = 0, total = 2 \<rparr>
   \<and> bucketSum (sa_summary (runStaticAnalysis 1200 1500 (Inr (inheritedSeverityReport, SolhintBlank, []))))
      = 1"
  by (simp add: inherited_severity_findings runStaticAnalysis_def runPatternChecks_def
      exampleSlitherFinding_def bucketSum_def)


section \<open>Properties of the sort\<close>

lemma mset_insertBy: "mset (insertBy cmp x ys) = add_mset x (mset ys)"
  by (induction ys) simp_all

lemma mset_arraySort: "mset (arraySort cmp xs) = mset xs"
  by (induction xs) (simp_all add: mset_insertBy)



text \<open>Whatever the engine chooses, the array keeps its elements.\<close>

lemma mset_rearrange: "mset (rearrange p xs) = mset xs"
proof (cases "sort p = [0..<length xs]")
  case False
  then show ?thesis by (simp add: rearrange_def)
next
  case True
  have "mset p = mset (sort p)" by simp
  then have "mset p = mset [0..<length xs]" using True by simp
  then have "mset (map (\<lambda>i. xs ! i) p) = mset (map (\<lambda>i. xs ! i) [0..<length xs])"
    by (metis mset_map)
  then show ?thesis using True by (simp add: rearrange_def map_nth)
qed

lemma mset_sortFindings: "mset (sortFindings w xs) = mset xs"
  by (simp add: sortFindings_def sortByPriority_def mset_arraySort mset_rearrange)

lemma length_sortFindings: "length (sortFindings w xs) = length xs"
  by (metis mset_sortFindings size_mset)

lemma set_sortFindings: "set (sortFindings w xs) = set xs"
  by (metis mset_sortFindings set_mset_mset)

text \<open>A finding of the \<^verbatim>\<open>Finding\<close> interface has a score, the product of its two weights.\<close>

lemma conforms_score: "conforms f = (priorityScoreOf f \<noteq> None)"
  by (simp add: conforms_def priorityScoreOf_def split: severityValue.splits option.splits)

text \<open>
  On a finding of the declared type, the score at run time is the score of
  \<^verbatim>\<open>calculatePriorityScore\<close> over that type.
\<close>

lemma confidenceOf_confidenceText: "confidenceOf (confidenceText c) = Some c"
  by (cases c) (simp_all add: confidenceOf_def)

lemma priorityScoreOf_rawOf: "priorityScoreOf (rawOf f) = Some (calculatePriorityScore f)"
  by (simp add: priorityScoreOf_def rawOf_def confidenceOf_confidenceText calculatePriorityScore_def)

lemma conforms_rawOf: "conforms (rawOf f)"
  by (simp add: conforms_score priorityScoreOf_rawOf)









text \<open>
  A finding without a score is in no comparison \<^verbatim>\<open>>=\<close> with another: no arrangement of
  two or more findings that holds one is in descending order of score.
\<close>

lemma unscored_never_descending:
  assumes "f \<in> set xs" and "priorityScoreOf f = None" and "2 \<le> length xs"
  shows "\<not> sorted_wrt scoreAtLeast xs"
proof
  assume sorted: "sorted_wrt scoreAtLeast xs"
  obtain i where i: "i < length xs" "xs ! i = f"
    using assms(1) by (auto simp add: in_set_conv_nth)
  have no: "\<And>g. \<not> scoreAtLeast f g" "\<And>g. \<not> scoreAtLeast g f"
    using assms(2) by (simp_all add: scoreAtLeast_def split: option.splits)
  have pairs: "\<And>a b. a < b \<Longrightarrow> b < length xs \<Longrightarrow> scoreAtLeast (xs ! a) (xs ! b)"
    using sorted by (simp add: sorted_wrt_iff_nth_less)
  show False
  proof (cases "i = 0")
    case True
    have "scoreAtLeast (xs ! 0) (xs ! 1)"
      using pairs [of 0 1] assms(3) by simp
    then show False using True i no by simp
  next
    case False
    have "scoreAtLeast (xs ! 0) (xs ! i)"
      using pairs [of 0 i] False i by simp
    then show False using i no by simp
  qed
qed

lemma sortFindings_unscored_not_descending:
  assumes "f \<in> set xs" and "priorityScoreOf f = None" and "2 \<le> length xs"
  shows "\<not> sorted_wrt scoreAtLeast (sortFindings w xs)"
  using assms unscored_never_descending [of f "sortFindings w xs"]
  by (simp add: set_sortFindings length_sortFindings)


section \<open>Reasoning about the steps of a run\<close>

lemmas notify_defs = notifyAuditStart_def notifyCloneComplete_def notifyStaticAnalysisComplete_def
  notifyDynamicTestsComplete_def notifyPRCreated_def notifyAuditComplete_def notifyAuditError_def

lemmas format_defs = formatAuditStart_def formatCloneComplete_def formatDynamicTestsComplete_def
  formatAuditComplete_def formatAuditError_def

lemma sendTelegramMessage_returns: "fst (sendTelegramMessage cfg w m) = Inr ()"
  by (simp add: sendTelegramMessage_def split: sum.splits)

text \<open>A \<^verbatim>\<open>notify...\<close> function throws exactly what building its message throws.\<close>

lemma fst_notify_built:
  "fst (notify cfg w call built) = (case built of Inl err \<Rightarrow> Inl err | Inr m \<Rightarrow> Inr ())"
proof (cases built)
  case (Inl err)
  then show ?thesis by (simp add: notify_def)
next
  case (Inr m)
  then show ?thesis
    using sendTelegramMessage_returns [of cfg w m]
    by (cases "sendTelegramMessage cfg w m") (simp add: notify_def)
qed

lemma snd_notify_built:
  "snd (notify cfg w call built)
     = Notify call # (case built of Inl err \<Rightarrow> [] | Inr m \<Rightarrow> snd (sendTelegramMessage cfg w m))"
proof (cases built)
  case (Inl err)
  then show ?thesis by (simp add: notify_def)
next
  case (Inr m)
  then show ?thesis
    by (cases "sendTelegramMessage cfg w m") (simp add: notify_def)
qed

lemma fst_notify:
  "fst (notifyAuditStart cfg w url ident) = Inr ()"
  "fst (notifyCloneComplete cfg w url n) = Inr ()"
  "fst (notifyDynamicTestsComplete cfg w d t rate) = Inr ()"
  "fst (notifyAuditComplete cfg w r) = Inr ()"
  "fst (notifyAuditError cfg w url msg) = Inr ()"
  "fst (notifyStaticAnalysisComplete cfg w fs tops)
     = (case formatStaticAnalysisComplete fs tops of Inl err \<Rightarrow> Inl err | Inr m \<Rightarrow> Inr ())"
  "fst (notifyPRCreated cfg w url n titles)
     = (case formatPRCreated url n titles of Inl err \<Rightarrow> Inl err | Inr m \<Rightarrow> Inr ())"
  by (simp_all add: notify_defs format_defs fst_notify_built)

text \<open>
  The titles that went through the conversion to a string in the message of the static
  analysis go through it again in the message of the pull request.
\<close>

lemma forEach_titles:
  "forEach formatTopFinding (numberedFrom k tops) = Inr entries \<Longrightarrow>
   \<exists>entries'. forEach formatTopTitle (numberedFrom k (map raw_title tops)) = Inr entries'"
proof (induction tops arbitrary: k entries)
  case Nil
  show ?case by simp
next
  case (Cons f tops)
  from Cons.prems obtain e es where
    first: "formatTopFinding (k, f) = Inr e" and rest: "forEach formatTopFinding (numberedFrom (k + 1) tops) = Inr es"
    by (auto split: sum.split_asm)
  from first obtain t where "ToString (raw_title f) = Inr t"
    by (auto simp add: formatTopFinding_def split: sum.split_asm)
  then have "formatTopTitle (k, raw_title f) = Inr [showNat k, t]"
    by (simp add: formatTopTitle_def)
  moreover obtain es' where "forEach formatTopTitle (numberedFrom (k + 1) (map raw_title tops)) = Inr es'"
    using Cons.IH [OF rest] by blast
  ultimately show ?case by simp
qed

lemma formatPRCreated_after_static:
  assumes "formatStaticAnalysisComplete fs tops = Inr m"
  shows "\<exists>m'. formatPRCreated url n (map raw_title tops) = Inr m'"
proof (cases "tops = []")
  case True
  then show ?thesis by (simp add: formatPRCreated_def)
next
  case False
  then obtain entries where "forEach formatTopFinding (numbered tops) = Inr entries"
    using assms by (auto simp add: formatStaticAnalysisComplete_def Let_def split: sum.split_asm)
  then obtain entries' where "forEach formatTopTitle (numbered (map raw_title tops)) = Inr entries'"
    using forEach_titles [of 1 tops entries] by (auto simp add: numbered_def)
  then show ?thesis using False by (simp add: formatPRCreated_def)
qed

lemma notifyPRCreated_after_static:
  assumes "fst (notifyStaticAnalysisComplete cfg w fs tops) = Inr ()"
  shows "fst (notifyPRCreated cfg w url n (map raw_title tops)) = Inr ()"
proof -
  obtain m where "formatStaticAnalysisComplete fs tops = Inr m"
    using assms by (auto simp add: fst_notify split: sum.split_asm)
  then obtain m' where "formatPRCreated url n (map raw_title tops) = Inr m'"
    using formatPRCreated_after_static by blast
  then show ?thesis by (simp add: fst_notify)
qed

lemma fst_andThen:
  "fst (andThen m k) = (case fst m of Inl err \<Rightarrow> Inl err | Inr x \<Rightarrow> fst (k x))"
  by (cases m) (simp add: andThen_def split: sum.splits prod.splits)

lemma snd_andThen:
  "snd (andThen m k) = snd m @ (case fst m of Inl err \<Rightarrow> [] | Inr x \<Rightarrow> snd (k x))"
  by (cases m) (simp add: andThen_def split: sum.splits prod.splits)

lemma fst_steps:
  "fst (calls s r) = r"
  "fst (returns x) = Inr x"
  "fst (throws msg) = Inl (Thrown msg)"
  by (simp_all add: calls_def returns_def throws_def)

lemma snd_steps:
  "snd (calls s r) = [Stage s]"
  "snd (returns x) = []"
  "snd (throws msg) = []"
  by (simp_all add: calls_def returns_def throws_def)

lemma fst_if: "fst (if c then x else y) = (if c then fst x else fst y)"
  by simp

lemma snd_if: "snd (if c then x else y) = (if c then snd x else snd y)"
  by simp

lemmas run_simps = fst_andThen snd_andThen fst_steps snd_steps fst_notify fst_if snd_if

lemma fst_dynamicTestsStage:
  "fst (dynamicTestsStage cfg w request cloneResult) =
     Inr (if runAudit_dynamicGate cfg request
          then Some (runDynamicTests cfg w (cr_localPath cloneResult)) else None)"
  by (simp add: dynamicTestsStage_def fst_andThen fst_steps fst_notify fst_if Let_def)

lemma fst_createPRStage:
  "fst (createPRStage cfg w request ident cloneResult staticResult tops dynamicResult fixesResult) =
     (if runAudit_prGate cfg request
      then (case createPR w
                   \<lparr> pi_repoPath = cr_localPath cloneResult, pi_repoUrl = rq_repoUrl request,
                     pi_findings = sa_findings staticResult, pi_fixes = fx_fixes fixesResult,
                     pi_dynamicTestResult = dynamicResult, pi_auditId = ident \<rparr> of
              Inl err \<Rightarrow> Inl err
            | Inr prResult \<Rightarrow>
                (case pr_prUrl prResult of
                   None \<Rightarrow> Inr None
                 | Some url \<Rightarrow>
                     if url = [] then Inr (Some url)
                     else (case formatPRCreated url (length (fx_fixes fixesResult))
                                  (map raw_title tops) of
                             Inl err \<Rightarrow> Inl err
                           | Inr m \<Rightarrow> Inr (Some url))))
      else Inr None)"
  by (simp add: createPRStage_def fst_andThen fst_steps fst_notify
      split: sum.splits option.splits)

text \<open>When the message of the pull request can be built, the stage gives the publisher's URL.\<close>

lemma fst_createPRStage_built:
  assumes "\<And>url n. \<exists>m. formatPRCreated url n (map raw_title tops) = Inr m"
  shows "fst (createPRStage cfg w request ident cloneResult staticResult tops dynamicResult fixesResult) =
     (if runAudit_prGate cfg request
      then (case createPR w
                   \<lparr> pi_repoPath = cr_localPath cloneResult, pi_repoUrl = rq_repoUrl request,
                     pi_findings = sa_findings staticResult, pi_fixes = fx_fixes fixesResult,
                     pi_dynamicTestResult = dynamicResult, pi_auditId = ident \<rparr> of
              Inl err \<Rightarrow> Inl err
            | Inr prResult \<Rightarrow> Inr (pr_prUrl prResult))
      else Inr None)"
proof -
  have "\<And>url n. (case formatPRCreated url n (map raw_title tops) of
                    Inl err \<Rightarrow> Inl err | Inr m \<Rightarrow> Inr (Some url)) = (Inr (Some url) :: thrown + string option)"
  proof -
    fix url n
    obtain m where "formatPRCreated url n (map raw_title tops) = Inr m"
      using assms by blast
    then show "(case formatPRCreated url n (map raw_title tops) of
                    Inl err \<Rightarrow> Inl err | Inr m \<Rightarrow> Inr (Some url)) = (Inr (Some url) :: thrown + string option)"
      by simp
  qed
  then show ?thesis
    by (simp add: fst_createPRStage split: sum.splits option.splits)
qed

lemma fst_saveReport: "fst (saveReport w ident rep) = writeReport w (reportDir ident) rep"
  by (simp add: saveReport_def split: sum.splits)

text \<open>
  What \<^verbatim>\<open>runAudit\<close> returns: the result of the \<^verbatim>\<open>try\<close>, or the failure object built from
  what the \<^verbatim>\<open>try\<close> threw. It never rejects.
\<close>

lemma fst_runAudit:
  "fst (runAudit cfg w request) =
     (case fst (runAuditTry cfg w request (auditIdAt (now_auditId (clock w)))) of
        Inr r \<Rightarrow> Inr r
      | Inl err \<Rightarrow> Inr (failureResult w request (auditIdAt (now_auditId (clock w))) (errorMsg err)))"
  by (cases "runAuditTry cfg w request (auditIdAt (now_auditId (clock w)))")
     (simp add: runAudit_def Let_def fst_andThen fst_notify fst_steps split: sum.splits)

lemma snd_runAudit:
  "snd (runAudit cfg w request) =
     snd (notifyAuditStart cfg w (rq_repoUrl request) (auditIdAt (now_auditId (clock w))))
     @ snd (runAuditTry cfg w request (auditIdAt (now_auditId (clock w))))
     @ (case fst (runAuditTry cfg w request (auditIdAt (now_auditId (clock w)))) of
          Inr r \<Rightarrow> []
        | Inl err \<Rightarrow> snd (notifyAuditError cfg w (rq_repoUrl request) (errorMsg err)))"
  by (cases "runAuditTry cfg w request (auditIdAt (now_auditId (clock w)))")
     (simp add: runAudit_def Let_def fst_andThen snd_andThen fst_notify fst_steps snd_steps
       split: sum.splits)

lemma runAudit_returns: "\<exists>r. fst (runAudit cfg w request) = Inr r"
  by (simp add: fst_runAudit split: sum.splits)

text \<open>The job: the object of the run after it, from what \<^verbatim>\<open>runAudit\<close> returned.\<close>

lemma auditJob_state:
  "fst (auditJob cfg w ref request st) =
     (case fst (runAudit cfg w request) of
        Inr result \<Rightarrow>
          modifyObject ref
            (\<lambda>a. a \<lparr> status := Completed, completedAt := Some (now_completed (clock w)),
                     as_result := Some result, as_progress := None \<rparr>)
            (modifyObject ref
              (\<lambda>a. a \<lparr> status := Running,
                       as_progress := Some \<lparr> pg_step = ''clone'', pg_stepNumber = 1,
                                             pg_totalSteps = 6,
                                             pg_message = ''Cloning repository...'' \<rparr> \<rparr>) st)
      | Inl err \<Rightarrow>
          modifyObject ref
            (\<lambda>a. a \<lparr> status := Failed, completedAt := Some (now_completed (clock w)),
                     as_error := Some (errorMsg err), as_progress := None \<rparr>)
            (modifyObject ref
              (\<lambda>a. a \<lparr> status := Running,
                       as_progress := Some \<lparr> pg_step = ''clone'', pg_stepNumber = 1,
                                             pg_totalSteps = 6,
                                             pg_message = ''Cloning repository...'' \<rparr> \<rparr>) st))"
  by (cases "runAudit cfg w request") (simp add: auditJob_def Let_def split: sum.splits)

lemma snd_auditJob: "snd (auditJob cfg w ref request st) = snd (runAudit cfg w request)"
  by (cases "runAudit cfg w request") (simp add: auditJob_def Let_def split: sum.splits)

text \<open>So the job never takes its \<^verbatim>\<open>catch\<close>: whatever the stages do, the run ends completed.\<close>

lemma auditJob_always_completed:
  assumes "ref < length (objects st)"
  shows "status (objects (fst (auditJob cfg w ref request st)) ! ref) = Completed"
    and "as_error (objects (fst (auditJob cfg w ref request st)) ! ref) = as_error (objects st ! ref)"
proof -
  obtain r where r: "fst (runAudit cfg w request) = Inr r"
    using runAudit_returns by blast
  show "status (objects (fst (auditJob cfg w ref request st)) ! ref) = Completed"
    using assms r by (simp add: auditJob_state modifyObject_def)
  show "as_error (objects (fst (auditJob cfg w ref request st)) ! ref) = as_error (objects st ! ref)"
    using assms r by (simp add: auditJob_state modifyObject_def)
qed

subsection \<open>Evaluating the concrete inputs\<close>

lemma example_ids: "showNat 1000 = ''1000''" "showNat 1001 = ''1001''"
  by code_simp+

lemma example_slither:
  "runSlither (exampleReport [exampleDetector ''reentrancy-benign'' ''Low'' ''Medium'',
                              exampleDetector ''arbitrary-send-eth'' ''High'' ''High''])
   = [exampleSlitherFinding ''SLTH-001'' ''reentrancy-benign'' (Literal Low) ''medium'',
      exampleSlitherFinding ''SLTH-002'' ''arbitrary-send-eth'' (Literal High) ''high'']"
  by (simp add: exampleReport_def exampleDetector_def exampleSlitherFinding_def adapter_defs
      showNat_digits toLowerCase_examples)

lemmas example_defs = exampleWorld_def exampleConfig_def exampleRequest_def exampleClock_def
  exampleBody_def exampleSolhintOutput_def exampleMatch_def exampleSlitherFinding_def

lemmas sort_defs = sortFindings_def sortByPriority_def consistentComparator_def
  byPriorityDesc_def priorityScoreOf_def confidenceOf_def rearrange_def slice0_def

lemmas message_defs = formatStaticAnalysisComplete_def formatPRCreated_def formatTopFinding_def
  formatTopTitle_def numbered_def

lemmas eval_defs = runAuditTry_def run_simps example_slither example_defs Let_def
  dynamicTestsStage_def createPRStage_def saveReport_def
  runAudit_dynamicGate_def runAudit_prGate_def
  cloneRepository_def validateSolidityRepo_def runStaticAnalysis_def adapter_defs
  showNat_digits trim_def isSpace_def
  runDynamicTests_def selectBestRPC_def compareLatency_def
  sort_defs message_defs notify_defs format_defs fst_notify_built snd_notify_built
  sendTelegramMessage_def
  orString_def interpolate_def reportDir_def
  fst_runAudit snd_runAudit auditIdAt_def example_ids failureResult_def
  startAudit_def postAuditStart_def auditJob_state snd_auditJob modifyObject_def
  getAudit_def emptyServer_def withDefault_def resultOf_def

section \<open>Notifications and the run\<close>

text \<open>Nothing a collaborator does depends on the Telegram bot or on what its API answers.\<close>

lemma selectBestRPC_sink:
  "selectBestRPC (w \<lparr> bot := b, sendMessage := s \<rparr>) urls = selectBestRPC w urls"
  by (simp add: selectBestRPC_def)

lemma sink_irrelevant:
  "cloneRepository (w \<lparr> bot := b, sendMessage := s \<rparr>) url branch = cloneRepository w url branch"
  "validateSolidityRepo (w \<lparr> bot := b, sendMessage := s \<rparr>) path = validateSolidityRepo w path"
  "runDynamicTests cfg (w \<lparr> bot := b, sendMessage := s \<rparr>) path = runDynamicTests cfg w path"
  "sortFindings (w \<lparr> bot := b, sendMessage := s \<rparr>) xs = sortFindings w xs"
  by (simp_all add: cloneRepository_def validateSolidityRepo_def runDynamicTests_def
      selectBestRPC_sink sortFindings_def cong: sum.case_cong prod.case_cong)

lemma fst_andThen_cong:
  assumes "fst m = fst m'" and "\<And>x. fst m' = Inr x \<Longrightarrow> fst (k x) = fst (k' x)"
  shows "fst (andThen m k) = fst (andThen m' k')"
  using assms by (simp add: fst_andThen split: sum.splits)

lemma fst_if_cong:
  assumes "c \<Longrightarrow> fst x = fst x'" and "\<not> c \<Longrightarrow> fst y = fst y'"
  shows "fst (if c then x else y) = fst (if c then x' else y')"
  using assms by simp

lemma fst_let_cong:
  assumes "v = v'" and "\<And>x. fst (f x) = fst (g x)"
  shows "fst (Let v f) = fst (Let v' g)"
  using assms by simp

lemma runAuditTry_sink:
  "fst (runAuditTry cfg (w \<lparr> bot := b, sendMessage := s \<rparr>) request ident)
     = fst (runAuditTry cfg w request ident)"
  unfolding runAuditTry_def
  apply (intro fst_andThen_cong fst_if_cong fst_let_cong)
  apply (simp_all add: fst_steps fst_notify sink_irrelevant fst_dynamicTestsStage
      fst_createPRStage fst_saveReport)
  done

text \<open>
  Two executions that differ only in the bot and in what its API answers return the same
  from \<^verbatim>\<open>runAudit\<close> and leave the same response and the same registry in the server.
\<close>

lemma runAudit_sink:
  "fst (runAudit cfg (w \<lparr> bot := b, sendMessage := s \<rparr>) request) = fst (runAudit cfg w request)"
  by (simp add: fst_runAudit runAuditTry_sink failureResult_def cong: sum.case_cong)

lemma auditJob_sink:
  "fst (auditJob cfg (w \<lparr> bot := b, sendMessage := s \<rparr>) ref request st)
     = fst (auditJob cfg w ref request st)"
  by (simp add: auditJob_state runAudit_sink cong: sum.case_cong)

lemma startAudit_sink:
  "fst (startAudit cfg (w \<lparr> bot := b, sendMessage := s \<rparr>) body st) = fst (startAudit cfg w body st)"
  "fst (snd (startAudit cfg (w \<lparr> bot := b, sendMessage := s \<rparr>) body st))
     = fst (snd (startAudit cfg w body st))"
proof -
  obtain resp st' job where p: "postAuditStart (now_request (clock w)) body st = (resp, st', job)"
    by (cases "postAuditStart (now_request (clock w)) body st") auto
  show "fst (startAudit cfg (w \<lparr> bot := b, sendMessage := s \<rparr>) body st) = fst (startAudit cfg w body st)"
    using p by (cases job) (auto simp: startAudit_def split: prod.splits)
  show "fst (snd (startAudit cfg (w \<lparr> bot := b, sendMessage := s \<rparr>) body st))
     = fst (snd (startAudit cfg w body st))"
  proof (cases job)
    case None
    with p show ?thesis by (simp add: startAudit_def)
  next
    case (Some j)
    obtain ref request where "j = (ref, request)" by (cases j) auto
    with p Some show ?thesis
      using auditJob_sink [where cfg = cfg and w = w and b = b and s = s and ref = ref
          and request = request and st = st']
      by (simp add: startAudit_def split: prod.splits)
  qed
qed

text \<open>
  The five \<^verbatim>\<open>notify...\<close> functions whose messages are built from strings and counts always
  return. The other two return when the titles, files and lines of the top findings can be
  converted to strings and their descriptions are strings.
\<close>

lemma descriptionSubstring_string:
  "(\<exists>excerpt. descriptionSubstring v = Inr excerpt) = (\<exists>s. v = Str s)"
  by (cases v) simp_all

lemma notifyStaticAnalysisComplete_returns:
  assumes "\<And>f. f \<in> set tops \<Longrightarrow>
             (\<exists>t. ToString (raw_title f) = Inr t) \<and> (\<exists>t. ToString (raw_file f) = Inr t)
             \<and> (\<exists>t. ToString (raw_line f) = Inr t) \<and> (\<exists>s. raw_description f = Str s)"
  shows "fst (notifyStaticAnalysisComplete cfg w fs tops) = Inr ()"
proof -
  have each: "\<exists>e. formatTopFinding (k, f) = Inr e" if mem: "f \<in> set tops" for k f
  proof -
    obtain a b c s where "ToString (raw_title f) = Inr a" "ToString (raw_file f) = Inr b"
      "ToString (raw_line f) = Inr c" "raw_description f = Str s"
      using assms [OF mem] by blast
    then show ?thesis by (simp add: formatTopFinding_def)
  qed
  have all: "\<exists>es. forEach formatTopFinding (numberedFrom k xs) = Inr es" if "set xs \<subseteq> set tops" for k xs
    using that
  proof (induction xs arbitrary: k)
    case Nil
    show ?case by simp
  next
    case (Cons x xs)
    obtain e where "formatTopFinding (k, x) = Inr e" using each [of x k] Cons.prems by auto
    moreover obtain es where "forEach formatTopFinding (numberedFrom (k + 1) xs) = Inr es"
      using Cons.IH [of "k + 1"] Cons.prems by auto
    ultimately show ?case by simp
  qed
  obtain es where "forEach formatTopFinding (numbered tops) = Inr es"
    using all [of tops 1] by (auto simp add: numbered_def)
  then show ?thesis
    by (simp add: fst_notify formatStaticAnalysisComplete_def Let_def)
qed

lemma numeric_description_findings:
  "runSlither numericDescriptionReport =
     [\<lparr> raw_id = ''SLTH-001'', raw_file = Str ''unknown'', raw_line = Num 0,
        raw_title = Str ''reentrancy-eth'', raw_description = Num 42,
        raw_severity = Literal High, raw_confidence = ''high'',
        raw_recommendation = Str ''Review the code carefully'', raw_tool = ''Slither'',
        raw_category = Str ''reentrancy-eth'' \<rparr>]"
  by (simp add: numericDescriptionReport_def exampleReport_def adapter_defs showNat_digits
      toLowerCase_examples)

text \<open>
  Claim C8, at a repository whose Slither report holds a detector with a number in place of
  its description. The adapter copies the number into the finding
  (\<^verbatim>\<open>detector.description || ''\<close>) and the static analysis succeeds. Then
  \<^verbatim>\<open>notifyStaticAnalysisComplete\<close> builds its message, calls
  \<^verbatim>\<open>finding.description.substring\<close> and throws before it reaches
  \<^verbatim>\<open>sendTelegramMessage\<close>: the call does not return normally, no later stage runs, and
  \<^verbatim>\<open>runAudit\<close> returns a failure whose error is the TypeError of the notification. It does
  so whether the bot is set or not.
\<close>

theorem notification_error_fails_run:
  "sa_success (runStaticAnalysis 1200 1500 (Inr (numericDescriptionReport, SolhintBlank, [])))
   \<and> map raw_description
        (sa_findings (runStaticAnalysis 1200 1500 (Inr (numericDescriptionReport, SolhintBlank, []))))
      = [Num 42]
   \<and> fst (notifyStaticAnalysisComplete exampleConfig exampleWorld
          (runSlither numericDescriptionReport) (runSlither numericDescriptionReport))
      = Inl (Thrown ''finding.description.substring is not a function'')
   \<and> map_option ar_success
        (resultOf (runAudit exampleConfig (exampleWorldWith numericDescriptionReport) exampleRequest))
      = Some False
   \<and> map_option ar_error
        (resultOf (runAudit exampleConfig (exampleWorldWith numericDescriptionReport) exampleRequest))
      = Some (Some ''finding.description.substring is not a function'')
   \<and> stagesOf (snd (runAudit exampleConfig (exampleWorldWith numericDescriptionReport) exampleRequest))
      = [CloneRepository, ValidateSolidityRepo, RunStaticAnalysis]
   \<and> map_option ar_error
        (resultOf (runAudit exampleConfig
           ((exampleWorldWith numericDescriptionReport) \<lparr> bot := False \<rparr>) exampleRequest))
      = Some (Some ''finding.description.substring is not a function'')"
  by (simp add: numeric_description_findings exampleWorldWith_def eval_defs)


section \<open>Hard failures\<close>

text \<open>
  When the clone or the validation fails, the \<^verbatim>\<open>throw\<close> leaves the \<^verbatim>\<open>try\<close> at once: the
  stages called are those up to the failing one, and \<^verbatim>\<open>runAudit\<close> returns the failure
  object with the stage's message behind a prefix.
\<close>

lemma stagesOf_append: "stagesOf (xs @ ys) = stagesOf xs @ stagesOf ys"
proof (induction xs)
  case Nil
  show ?case by simp
next
  case (Cons e xs)
  then show ?case by (cases e) simp_all
qed

lemma stagesOf_send: "stagesOf (snd (sendTelegramMessage cfg w m)) = []"
  by (simp add: sendTelegramMessage_def split: sum.splits)

lemma stagesOf_notify_built: "stagesOf (snd (notify cfg w call built)) = []"
  by (simp add: snd_notify_built stagesOf_send split: sum.splits)

lemma stagesOf_notify:
  "stagesOf (snd (notifyAuditStart cfg w url ident)) = []"
  "stagesOf (snd (notifyCloneComplete cfg w url n)) = []"
  "stagesOf (snd (notifyStaticAnalysisComplete cfg w fs tops)) = []"
  "stagesOf (snd (notifyDynamicTestsComplete cfg w d t rate)) = []"
  "stagesOf (snd (notifyPRCreated cfg w url n titles)) = []"
  "stagesOf (snd (notifyAuditComplete cfg w r)) = []"
  "stagesOf (snd (notifyAuditError cfg w url msg)) = []"
  by (simp_all add: notify_defs stagesOf_notify_built)

lemma clone_failure_stops_run:
  assumes "gitClone w (rq_repoUrl request) (orString (rq_branch request) ''main'') = Inl err"
  shows "stagesOf (snd (runAudit cfg w request)) = [CloneRepository]"
    and "fst (runAudit cfg w request)
         = Inr (failureResult w request (auditIdAt (now_auditId (clock w)))
                  (''Clone failed: '' @ errorMsg err))"
  using assms
  by (simp_all add: fst_runAudit snd_runAudit runAuditTry_def run_simps stagesOf_append
      stagesOf_notify cloneRepository_def interpolate_def)

lemma validation_failure_stops_run:
  assumes "gitClone w (rq_repoUrl request) (orString (rq_branch request) ''main'') = Inr (path, commit)"
    and "\<not> isValid (validateSolidityRepo w path)"
  shows "stagesOf (snd (runAudit cfg w request)) = [CloneRepository, ValidateSolidityRepo]"
    and "fst (runAudit cfg w request)
         = Inr (failureResult w request (auditIdAt (now_auditId (clock w)))
                  (''No Solidity contracts found: '' @ interpolate (v_error (validateSolidityRepo w path))))"
  using assms
  by (simp_all add: fst_runAudit snd_runAudit runAuditTry_def run_simps stagesOf_append
      stagesOf_notify cloneRepository_def)

text \<open>
  Claim C1, at a run whose clone fails. No stage after the clone is called and the result
  of \<^verbatim>\<open>runAudit\<close> has \<^verbatim>\<open>success: false\<close> and the error
  \<^verbatim>\<open>Clone failed: Repository not found\<close>. But \<^verbatim>\<open>runAudit\<close> returns that result instead of
  throwing, and the server marks every run whose \<^verbatim>\<open>runAudit\<close> returned as completed: the
  run's status is \<open>Completed\<close>, not \<open>Failed\<close>, and its own error field stays unset.
\<close>

theorem clone_failure_marked_completed:
  "fst (startAudit exampleConfig
          (exampleWorld \<lparr> gitClone := (\<lambda>url branch. Inl (Thrown ''Repository not found'')) \<rparr>)
          exampleBody emptyServer) = Started ''audit-1000''
   \<and> map_option status
        (getAudit (fst (snd (startAudit exampleConfig
          (exampleWorld \<lparr> gitClone := (\<lambda>url branch. Inl (Thrown ''Repository not found'')) \<rparr>)
          exampleBody emptyServer))) ''audit-1000'') = Some Completed
   \<and> map_option as_error
        (getAudit (fst (snd (startAudit exampleConfig
          (exampleWorld \<lparr> gitClone := (\<lambda>url branch. Inl (Thrown ''Repository not found'')) \<rparr>)
          exampleBody emptyServer))) ''audit-1000'') = Some None
   \<and> map_option (map_option ar_success \<circ> as_result)
        (getAudit (fst (snd (startAudit exampleConfig
          (exampleWorld \<lparr> gitClone := (\<lambda>url branch. Inl (Thrown ''Repository not found'')) \<rparr>)
          exampleBody emptyServer))) ''audit-1000'') = Some (Some False)
   \<and> map_option (map_option ar_error \<circ> as_result)
        (getAudit (fst (snd (startAudit exampleConfig
          (exampleWorld \<lparr> gitClone := (\<lambda>url branch. Inl (Thrown ''Repository not found'')) \<rparr>)
          exampleBody emptyServer))) ''audit-1000'')
       = Some (Some (Some ''Clone failed: Repository not found''))
   \<and> stagesOf (snd (snd (startAudit exampleConfig
          (exampleWorld \<lparr> gitClone := (\<lambda>url branch. Inl (Thrown ''Repository not found'')) \<rparr>)
          exampleBody emptyServer))) = [CloneRepository]"
  by (simp add: eval_defs)

section \<open>Soft failures and gates\<close>

lemma runDynamicTests_failure_has_error:
  "\<not> dt_success (runDynamicTests cfg w path) \<Longrightarrow> dt_error (runDynamicTests cfg w path) \<noteq> None"
  by (auto simp add: runDynamicTests_def split: sum.splits prod.splits)

lemma runStaticAnalysis_Inr:
  "sa_success (runStaticAnalysis t0 t1 (Inr runs))"
  "sa_findings (runStaticAnalysis t0 t1 (Inr (a, b, c)))
     = runSlither a @ runSolhint b @ runPatternChecks c"
  by (simp_all add: runStaticAnalysis_def Let_def split: prod.splits)

text \<open>
  When the notification of the static analysis throws, the run ends there: no later stage
  is called and \<^verbatim>\<open>runAudit\<close> returns the failure object with what the notification threw.
\<close>

lemma static_notification_throw_stops_run:
  assumes clone: "gitClone w (rq_repoUrl request) (orString (rq_branch request) ''main'') = Inr (path, commit)"
    and sol: "findSolFiles w path = Inr files" and nonempty: "files \<noteq> []"
    and static: "analyzerRuns w path = Inr runs"
    and thrown: "fst (notifyStaticAnalysisComplete cfg w
                  (sortFindings w (sa_findings (runStaticAnalysis (int (now_static_start (clock w)))
                     (int (now_static_end (clock w))) (Inr runs))))
                  (slice0 5 (sortFindings w (sa_findings (runStaticAnalysis
                     (int (now_static_start (clock w))) (int (now_static_end (clock w)))
                     (Inr runs)))))) = Inl err"
  shows "stagesOf (snd (runAudit cfg w request))
           = [CloneRepository, ValidateSolidityRepo, RunStaticAnalysis]"
    and "fst (runAudit cfg w request)
           = Inr (failureResult w request (auditIdAt (now_auditId (clock w))) (errorMsg err))"
proof -
  let ?fs = "sortFindings w (sa_findings (runStaticAnalysis (int (now_static_start (clock w)))
                     (int (now_static_end (clock w))) (Inr runs)))"
  have built: "formatStaticAnalysisComplete ?fs (slice0 5 ?fs) = Inl err"
    using thrown by (auto simp add: fst_notify split: sum.split_asm)
  show "stagesOf (snd (runAudit cfg w request))
           = [CloneRepository, ValidateSolidityRepo, RunStaticAnalysis]"
    using clone sol nonempty static built
    by (simp add: snd_runAudit runAuditTry_def run_simps stagesOf_append stagesOf_notify
        cloneRepository_def validateSolidityRepo_def runStaticAnalysis_Inr(1) Let_def)
  show "fst (runAudit cfg w request)
           = Inr (failureResult w request (auditIdAt (now_auditId (clock w))) (errorMsg err))"
    using clone sol nonempty static built
    by (simp add: fst_runAudit runAuditTry_def run_simps
        cloneRepository_def validateSolidityRepo_def runStaticAnalysis_Inr(1) Let_def)
qed

text \<open>
  The \<^verbatim>\<open>try\<close> of a run whose clone, validation and static analysis succeed, whose
  notification of the static analysis returns, whose dynamic tests are called, and whose
  fix generator, publisher and file system do not throw.
\<close>

lemma runAuditTry_dynamic_failure:
  assumes clone: "gitClone w (rq_repoUrl request) (orString (rq_branch request) ''main'') = Inr (path, commit)"
    and sol: "findSolFiles w path = Inr files" and nonempty: "files \<noteq> []"
    and static: "analyzerRuns w path = Inr runs"
    and told: "fst (notifyStaticAnalysisComplete cfg w
                  (sortFindings w (sa_findings (runStaticAnalysis (int (now_static_start (clock w)))
                     (int (now_static_end (clock w))) (Inr runs))))
                  (slice0 5 (sortFindings w (sa_findings (runStaticAnalysis
                     (int (now_static_start (clock w))) (int (now_static_end (clock w)))
                     (Inr runs)))))) = Inr ()"
    and gate: "runAudit_dynamicGate cfg request"
    and gen: "\<And>fs p. generateFixes w fs p = Inr (fixer fs p)"
    and pr: "\<And>input. createPR w input = Inr (publisher input)"
    and save: "\<And>dir rep. writeReport w dir rep = Inr ()"
  shows "\<exists>r. fst (runAuditTry cfg w request ident) = Inr r \<and> ar_success r \<and> ar_error r = None
     \<and> ar_dynamicTestResult r = Some (runDynamicTests cfg w path)
     \<and> ar_findings r = sortFindings w (sa_findings (runStaticAnalysis
                          (int (now_static_start (clock w))) (int (now_static_end (clock w)))
                          (Inr runs)))
     \<and> ar_summary r = sa_summary (runStaticAnalysis (int (now_static_start (clock w)))
                          (int (now_static_end (clock w))) (Inr runs))"
proof -
  let ?fs = "sortFindings w (sa_findings (runStaticAnalysis (int (now_static_start (clock w)))
                     (int (now_static_end (clock w))) (Inr runs)))"
  obtain m where built: "formatStaticAnalysisComplete ?fs (slice0 5 ?fs) = Inr m"
    using told by (auto simp add: fst_notify split: sum.split_asm)
  have titles: "\<And>url n. \<exists>m'. formatPRCreated url n (map raw_title (slice0 5 ?fs)) = Inr m'"
    using formatPRCreated_after_static [OF built] by blast
  show ?thesis
    using clone sol nonempty static gate gen pr save built
    by (simp add: runAuditTry_def fst_andThen fst_steps fst_notify fst_if
        fst_dynamicTestsStage fst_createPRStage_built [OF titles] fst_saveReport
        cloneRepository_def validateSolidityRepo_def runStaticAnalysis_Inr Let_def)
qed

text \<open>
  Claim C2. Take a run whose clone, validation and static analysis succeed, whose dynamic
  tests are called and fail, and whose fix generation, publication and report writing do
  not throw. Then
  \<^verbatim>\<open>runAudit\<close> returns a result, the server marks the run completed with no error of its
  own, and the result is a success without an error that carries the failed dynamic-test
  result (with its error message) and the summary of the static findings, whose total is
  the number of findings returned.
\<close>

theorem dynamic_failure_still_completes:
  assumes clone: "gitClone w (rq_repoUrl request) (orString (rq_branch request) ''main'') = Inr (path, commit)"
    and sol: "findSolFiles w path = Inr files" and nonempty: "files \<noteq> []"
    and static: "analyzerRuns w path = Inr runs"
    and gate: "runAudit_dynamicGate cfg request"
    and called: "RunDynamicTests \<in> set (stagesOf (snd (runAudit cfg w request)))"
    and dyn: "\<not> dt_success (runDynamicTests cfg w path)"
    and gen: "\<And>fs p. generateFixes w fs p = Inr (fixer fs p)"
    and pr: "\<And>input. createPR w input = Inr (publisher input)"
    and save: "\<And>dir rep. writeReport w dir rep = Inr ()"
    and ref: "ref < length (objects st)"
    and fresh: "as_error (objects st ! ref) = None"
  shows "\<exists>r. fst (runAudit cfg w request) = Inr r
     \<and> status (objects (fst (auditJob cfg w ref request st)) ! ref) = Completed
     \<and> as_error (objects (fst (auditJob cfg w ref request st)) ! ref) = None
     \<and> as_result (objects (fst (auditJob cfg w ref request st)) ! ref) = Some r
     \<and> ar_success r \<and> ar_error r = None
     \<and> ar_dynamicTestResult r = Some (runDynamicTests cfg w path)
     \<and> \<not> dt_success (runDynamicTests cfg w path)
     \<and> dt_error (runDynamicTests cfg w path) \<noteq> None
     \<and> ar_summary r = sa_summary (runStaticAnalysis (int (now_static_start (clock w)))
                          (int (now_static_end (clock w))) (Inr runs))
     \<and> total (ar_summary r) = length (ar_findings r)"
proof -
  have told: "fst (notifyStaticAnalysisComplete cfg w
                  (sortFindings w (sa_findings (runStaticAnalysis (int (now_static_start (clock w)))
                     (int (now_static_end (clock w))) (Inr runs))))
                  (slice0 5 (sortFindings w (sa_findings (runStaticAnalysis
                     (int (now_static_start (clock w))) (int (now_static_end (clock w)))
                     (Inr runs)))))) = Inr ()"
  proof (cases "fst (notifyStaticAnalysisComplete cfg w
                  (sortFindings w (sa_findings (runStaticAnalysis (int (now_static_start (clock w)))
                     (int (now_static_end (clock w))) (Inr runs))))
                  (slice0 5 (sortFindings w (sa_findings (runStaticAnalysis
                     (int (now_static_start (clock w))) (int (now_static_end (clock w)))
                     (Inr runs))))))")
    case (Inl err)
    have "stagesOf (snd (runAudit cfg w request))
           = [CloneRepository, ValidateSolidityRepo, RunStaticAnalysis]"
      using static_notification_throw_stops_run(1) [OF clone sol nonempty static Inl] .
    then show ?thesis using called by simp
  next
    case (Inr u)
    then show ?thesis by simp
  qed
  obtain r where body: "fst (runAuditTry cfg w request (auditIdAt (now_auditId (clock w)))) = Inr r"
    and r: "ar_success r" "ar_error r = None"
      "ar_dynamicTestResult r = Some (runDynamicTests cfg w path)"
      "ar_findings r = sortFindings w (sa_findings (runStaticAnalysis
                          (int (now_static_start (clock w))) (int (now_static_end (clock w)))
                          (Inr runs)))"
      "ar_summary r = sa_summary (runStaticAnalysis (int (now_static_start (clock w)))
                          (int (now_static_end (clock w))) (Inr runs))"
    using runAuditTry_dynamic_failure [OF clone sol nonempty static told gate gen pr save] by blast
  have run: "fst (runAudit cfg w request) = Inr r"
    using body by (simp add: fst_runAudit)
  have count: "total (ar_summary r) = length (ar_findings r)"
    using r(4,5) by (simp add: runStaticAnalysis_total length_sortFindings)
  show ?thesis
    using run r count dyn ref fresh runDynamicTests_failure_has_error [OF dyn]
    by (simp add: auditJob_state modifyObject_def)
qed

theorem dynamic_failure_still_completes_witness:
  "gitClone exampleWorld (rq_repoUrl exampleRequest) (orString (rq_branch exampleRequest) ''main'')
     = Inr (''cloned-repos/vault-1001'', ''abc123'')
   \<and> findSolFiles exampleWorld ''cloned-repos/vault-1001'' = Inr [''contracts/Vault.sol'']
   \<and> [''contracts/Vault.sol''] \<noteq> []
   \<and> analyzerRuns exampleWorld ''cloned-repos/vault-1001''
       = Inr (exampleReport [exampleDetector ''reentrancy-benign'' ''Low'' ''Medium'',
                             exampleDetector ''arbitrary-send-eth'' ''High'' ''High''],
              exampleSolhintOutput, [exampleMatch])
   \<and> runAudit_dynamicGate exampleConfig exampleRequest
   \<and> RunDynamicTests \<in> set (stagesOf (snd (runAudit exampleConfig exampleWorld exampleRequest)))
   \<and> \<not> dt_success (runDynamicTests exampleConfig exampleWorld ''cloned-repos/vault-1001'')
   \<and> (\<forall>fs p. generateFixes exampleWorld fs p = Inr \<lparr> fx_fixes = [''fix for SLTH-002''] \<rparr>)
   \<and> (\<forall>input. createPR exampleWorld input
         = Inr \<lparr> pr_success = True, pr_prUrl = Some ''https://github.com/acme/vault/pull/7'',
                 pr_error = None \<rparr>)
   \<and> (\<forall>dir rep. writeReport exampleWorld dir rep = Inr ())
   \<and> 0 < length (objects (fst (snd (postAuditStart 1000 exampleBody emptyServer))))
   \<and> as_error (objects (fst (snd (postAuditStart 1000 exampleBody emptyServer))) ! 0) = None
   \<and> (\<exists>r. fst (runAudit exampleConfig exampleWorld exampleRequest) = Inr r
        \<and> status (objects (fst (auditJob exampleConfig exampleWorld 0 exampleRequest
             (fst (snd (postAuditStart 1000 exampleBody emptyServer))))) ! 0) = Completed
        \<and> as_result (objects (fst (auditJob exampleConfig exampleWorld 0 exampleRequest
             (fst (snd (postAuditStart 1000 exampleBody emptyServer))))) ! 0) = Some r
        \<and> ar_success r \<and> ar_error r = None
        \<and> map_option dt_error (ar_dynamicTestResult r) = Some (Some ''Contract compilation failed'')
        \<and> ar_summary r = \<lparr> critical = 0, high = 2, medium = 1, low = 1, info = 0, total = 4 \<rparr>)"
proof -
  have clone: "gitClone exampleWorld (rq_repoUrl exampleRequest)
      (orString (rq_branch exampleRequest) ''main'') = Inr (''cloned-repos/vault-1001'', ''abc123'')"
    by (simp add: example_defs)
  have sol: "findSolFiles exampleWorld ''cloned-repos/vault-1001'' = Inr [''contracts/Vault.sol'']"
    by (simp add: example_defs)
  have nonempty: "[''contracts/Vault.sol''] \<noteq> []"
    by simp
  have static: "analyzerRuns exampleWorld ''cloned-repos/vault-1001''
       = Inr (exampleReport [exampleDetector ''reentrancy-benign'' ''Low'' ''Medium'',
                             exampleDetector ''arbitrary-send-eth'' ''High'' ''High''],
              exampleSolhintOutput, [exampleMatch])"
    by (simp add: exampleWorld_def)
  have called: "RunDynamicTests \<in> set (stagesOf (snd (runAudit exampleConfig exampleWorld exampleRequest)))"
    by (simp add: eval_defs)
  have gate: "runAudit_dynamicGate exampleConfig exampleRequest"
    by (simp add: runAudit_dynamicGate_def example_defs)
  have dynamic: "runDynamicTests exampleConfig exampleWorld ''cloned-repos/vault-1001''
      = \<lparr> dt_success = False, deployments = [], transactions = [],
          dt_summary = \<lparr> totalDeployed = 0, totalTransactions = 0, successfulTx = 0,
                         failedTx = 0, totalGasUsed = 0 \<rparr>,
          rpcUrl = ''https://sepolia-rollup.arbitrum.io/rpc'', dt_chainId = 421614,
          dt_duration = 100, dt_error = Some ''Contract compilation failed'' \<rparr>"
    by (simp add: runDynamicTests_def selectBestRPC_def example_defs)
  have dyn: "\<not> dt_success (runDynamicTests exampleConfig exampleWorld ''cloned-repos/vault-1001'')"
    by (simp add: dynamic)
  have gen: "\<And>fs p. generateFixes exampleWorld fs p = Inr \<lparr> fx_fixes = [''fix for SLTH-002''] \<rparr>"
    by (simp add: exampleWorld_def)
  have pr: "\<And>input. createPR exampleWorld input
         = Inr \<lparr> pr_success = True, pr_prUrl = Some ''https://github.com/acme/vault/pull/7'',
                 pr_error = None \<rparr>"
    by (simp add: exampleWorld_def)
  have save: "\<And>dir rep. writeReport exampleWorld dir rep = Inr ()"
    by (simp add: exampleWorld_def)
  have ref: "0 < length (objects (fst (snd (postAuditStart 1000 exampleBody emptyServer))))"
    by (simp add: postAuditStart_def Let_def orString_def exampleBody_def emptyServer_def)
  have fresh: "as_error (objects (fst (snd (postAuditStart 1000 exampleBody emptyServer))) ! 0) = None"
    by (simp add: postAuditStart_def Let_def orString_def exampleBody_def emptyServer_def)
  have summary: "sa_summary (runStaticAnalysis (int (now_static_start (clock exampleWorld)))
        (int (now_static_end (clock exampleWorld)))
        (Inr (exampleReport [exampleDetector ''reentrancy-benign'' ''Low'' ''Medium'',
                             exampleDetector ''arbitrary-send-eth'' ''High'' ''High''],
              exampleSolhintOutput, [exampleMatch])))
      = \<lparr> critical = 0, high = 2, medium = 1, low = 1, info = 0, total = 4 \<rparr>"
    by (simp add: runStaticAnalysis_def example_slither example_defs adapter_defs showNat_digits)
  show ?thesis
    using dynamic_failure_still_completes
      [OF clone sol nonempty static gate called dyn gen pr save ref fresh]
      clone sol static gate called dyn gen pr save ref fresh
    by (auto simp add: dynamic summary)
qed

text \<open>
  Claim C3, at a configuration with both feature flags on and no credentials at all (no
  GitHub token, no private key, no RPC URL). The gates of \<^verbatim>\<open>executeAuditTool\<close> are closed
  there, but \<^verbatim>\<open>runAudit\<close> looks at the request and the flags only: it calls the dynamic
  tests, which fail for want of an RPC URL and are recorded as a failed result, and it calls
  the publisher.
\<close>

theorem missing_credentials_stage_runs:
  "\<not> executeAuditTool_dynamicGate
        (exampleConfig \<lparr> githubToken := [], testnetPrivateKey := [], rpcUrls := [] \<rparr>)
   \<and> \<not> executeAuditTool_prGate
        (exampleConfig \<lparr> githubToken := [], testnetPrivateKey := [], rpcUrls := [] \<rparr>)
   \<and> stagesOf (snd (runAudit
        (exampleConfig \<lparr> githubToken := [], testnetPrivateKey := [], rpcUrls := [] \<rparr>)
        exampleWorld exampleRequest))
       = [CloneRepository, ValidateSolidityRepo, RunStaticAnalysis, RunDynamicTests,
          GenerateFixes, CreatePR, SaveReport]
   \<and> map_option (map_option dt_success \<circ> ar_dynamicTestResult)
        (resultOf (runAudit
           (exampleConfig \<lparr> githubToken := [], testnetPrivateKey := [], rpcUrls := [] \<rparr>)
           exampleWorld exampleRequest)) = Some (Some False)
   \<and> map_option (map_option dt_error \<circ> ar_dynamicTestResult)
        (resultOf (runAudit
           (exampleConfig \<lparr> githubToken := [], testnetPrivateKey := [], rpcUrls := [] \<rparr>)
           exampleWorld exampleRequest))
       = Some (Some (Some ''Cannot read properties of undefined (reading 'latency')''))"
  by (simp add: eval_defs executeAuditTool_dynamicGate_def executeAuditTool_prGate_def)

section \<open>The findings, the reports and the identifiers of a run\<close>

lemma reportsOf_append: "reportsOf (xs @ ys) = reportsOf xs @ reportsOf ys"
proof (induction xs)
  case Nil
  show ?case by simp
next
  case (Cons e xs)
  then show ?case by (cases e) simp_all
qed

lemma reportsOf_send: "reportsOf (snd (sendTelegramMessage cfg w m)) = []"
  by (simp add: sendTelegramMessage_def split: sum.splits)

lemma reportsOf_notify_built: "reportsOf (snd (notify cfg w call built)) = []"
  by (simp add: snd_notify_built reportsOf_send split: sum.splits)

lemma reportsOf_notify:
  "reportsOf (snd (notifyAuditStart cfg w url ident)) = []"
  "reportsOf (snd (notifyCloneComplete cfg w url n)) = []"
  "reportsOf (snd (notifyStaticAnalysisComplete cfg w fs tops)) = []"
  "reportsOf (snd (notifyDynamicTestsComplete cfg w d t rate)) = []"
  "reportsOf (snd (notifyPRCreated cfg w url n titles)) = []"
  "reportsOf (snd (notifyAuditComplete cfg w r)) = []"
  "reportsOf (snd (notifyAuditError cfg w url msg)) = []"
  by (simp_all add: notify_defs reportsOf_notify_built)

lemma reportsOf_dynamicTestsStage:
  "reportsOf (snd (dynamicTestsStage cfg w request cloneResult)) = []"
  by (simp add: dynamicTestsStage_def run_simps reportsOf_append reportsOf_notify Let_def)

lemma reportsOf_createPRStage:
  "reportsOf (snd (createPRStage cfg w request ident cloneResult staticResult tops dynamicResult
     fixesResult)) = []"
  by (simp add: createPRStage_def run_simps reportsOf_append reportsOf_notify
      split: sum.splits option.splits)

lemma reportsOf_saveReport:
  "reportsOf (snd (saveReport w ident rep)) =
     (case writeReport w (reportDir ident) rep of Inr u \<Rightarrow> [(reportDir ident, rep)] | Inl err \<Rightarrow> [])"
  by (simp add: saveReport_def split: sum.splits)

text \<open>
  A \<^verbatim>\<open>try\<close> that returns: its result and the one report it wrote hold the findings as the
  sort left them, and the identifier the run was given.
\<close>

lemma runAuditTry_success:
  assumes "fst (runAuditTry cfg w request ident) = Inr r"
    and "analyzerRuns w (cr_localPath (cloneRepository w (rq_repoUrl request)
            (orString (rq_branch request) ''main''))) = Inr runs"
  shows "ar_findings r = sortFindings w (sa_findings (runStaticAnalysis
            (int (now_static_start (clock w))) (int (now_static_end (clock w))) (Inr runs)))
     \<and> ar_auditId r = ident
     \<and> map (\<lambda>(dir, rep). (dir, rp_auditId rep, sa_findings (staticAnalysis rep)))
         (reportsOf (snd (runAuditTry cfg w request ident)))
       = [(reportDir ident, ident, sortFindings w (sa_findings (runStaticAnalysis
            (int (now_static_start (clock w))) (int (now_static_end (clock w))) (Inr runs))))]"
  using assms
  by (auto simp add: runAuditTry_def run_simps reportsOf_append reportsOf_notify
      reportsOf_dynamicTestsStage reportsOf_createPRStage reportsOf_saveReport
      fst_dynamicTestsStage fst_createPRStage fst_saveReport runStaticAnalysis_Inr(1) Let_def
      split: if_split_asm sum.split_asm)

lemma runAuditTry_carries_ident:
  "fst (runAuditTry cfg w request ident) = Inr r \<Longrightarrow> ar_auditId r = ident"
  by (auto simp add: runAuditTry_def run_simps fst_dynamicTestsStage fst_createPRStage
      fst_saveReport Let_def split: if_split_asm sum.split_asm)

lemma runAuditTry_reports:
  "reportsCarry ident (snd (runAuditTry cfg w request ident))"
  by (simp add: reportsCarry_def runAuditTry_def run_simps reportsOf_append reportsOf_notify
      reportsOf_dynamicTestsStage reportsOf_createPRStage reportsOf_saveReport Let_def
      split: sum.splits)

lemma runAudit_reports:
  "reportsOf (snd (runAudit cfg w request))
     = reportsOf (snd (runAuditTry cfg w request (auditIdAt (now_auditId (clock w)))))"
  by (simp add: snd_runAudit reportsOf_append reportsOf_notify split: sum.splits)

lemma runAudit_carries_ident:
  "map_option ar_auditId (resultOf (runAudit cfg w request)) = Some (auditIdAt (now_auditId (clock w)))"
  by (simp add: resultOf_def fst_runAudit failureResult_def runAuditTry_carries_ident
      split: sum.splits)

text \<open>
  The sort is in place: on every successful run the findings in the result returned and in
  the report written are the array as the sort left it, a rearrangement of the analyzers'
  findings. When every finding has a severity and a confidence of the \<^verbatim>\<open>Finding\<close>
  interface, that is the stable arrangement in descending order of score.
\<close>

lemma successful_run_findings:
  assumes "map_option ar_success (resultOf (runAudit cfg w request)) = Some True"
    and "analyzerRuns w (cr_localPath (cloneRepository w (rq_repoUrl request)
            (orString (rq_branch request) ''main''))) = Inr runs"
  shows "map_option ar_findings (resultOf (runAudit cfg w request))
           = Some (sortFindings w (sa_findings (runStaticAnalysis
               (int (now_static_start (clock w))) (int (now_static_end (clock w))) (Inr runs))))"
    and "map (\<lambda>(dir, rep). sa_findings (staticAnalysis rep)) (reportsOf (snd (runAudit cfg w request)))
           = [sortFindings w (sa_findings (runStaticAnalysis
               (int (now_static_start (clock w))) (int (now_static_end (clock w))) (Inr runs)))]"
proof -
  obtain r where r: "fst (runAuditTry cfg w request (auditIdAt (now_auditId (clock w)))) = Inr r"
    using assms(1)
    by (auto simp add: resultOf_def fst_runAudit failureResult_def split: sum.split_asm)
  have shape: "map (\<lambda>(dir, rep). sa_findings (staticAnalysis rep))
          (reportsOf (snd (runAuditTry cfg w request (auditIdAt (now_auditId (clock w))))))
        = map (\<lambda>(dir, ident, fs). fs)
            (map (\<lambda>(dir, rep). (dir, rp_auditId rep, sa_findings (staticAnalysis rep)))
              (reportsOf (snd (runAuditTry cfg w request (auditIdAt (now_auditId (clock w)))))))"
    by (simp add: case_prod_unfold comp_def)
  show "map_option ar_findings (resultOf (runAudit cfg w request))
           = Some (sortFindings w (sa_findings (runStaticAnalysis
               (int (now_static_start (clock w))) (int (now_static_end (clock w))) (Inr runs))))"
    using runAuditTry_success [OF r assms(2)] r by (simp add: resultOf_def fst_runAudit)
  show "map (\<lambda>(dir, rep). sa_findings (staticAnalysis rep)) (reportsOf (snd (runAudit cfg w request)))
           = [sortFindings w (sa_findings (runStaticAnalysis
               (int (now_static_start (clock w))) (int (now_static_end (clock w))) (Inr runs)))]"
    using runAuditTry_success [OF r assms(2)] shape by (simp add: runAudit_reports)
qed

subsection \<open>What the run hands to the notification of the static analysis\<close>











lemma unmapped_confidence_findings:
  "runSlither unmappedConfidenceReport =
     [exampleSlitherFinding ''SLTH-001'' ''low-level-calls'' (Literal Low) ''high'',
      exampleSlitherFinding ''SLTH-002'' ''unused-return'' (Literal Medium) ''informational'',
      exampleSlitherFinding ''SLTH-003'' ''arbitrary-send-eth'' (Literal High) ''high'',
      exampleSlitherFinding ''SLTH-004'' ''divide-before-multiply'' (Literal Medium) ''medium'']"
  by (simp add: unmappedConfidenceReport_def exampleReport_def exampleDetector_def
      exampleSlitherFinding_def adapter_defs showNat_digits toLowerCase_examples)

text \<open>
  With such findings the run succeeds whatever the engine makes of the sort, and what it
  returns is in no descending order.
\<close>

lemma unmapped_confidence_any_engine:
  "map_option ar_success
      (resultOf (runAudit exampleConfig
         ((exampleWorldWith unmappedConfidenceReport) \<lparr> enginePermutation := engine \<rparr>)
         exampleRequest)) = Some True
   \<and> map_option (sorted_wrt scoreAtLeast \<circ> ar_findings)
      (resultOf (runAudit exampleConfig
         ((exampleWorldWith unmappedConfidenceReport) \<lparr> enginePermutation := engine \<rparr>)
         exampleRequest)) = Some False"
proof -
  let ?w = "(exampleWorldWith unmappedConfidenceReport) \<lparr> enginePermutation := engine \<rparr>"
  let ?runs = "(unmappedConfidenceReport, SolhintBlank, [])"
  let ?fs = "sa_findings (runStaticAnalysis (int (now_static_start (clock ?w)))
               (int (now_static_end (clock ?w))) (Inr ?runs))"
  have fs: "\<And>t0 t1. sa_findings (runStaticAnalysis t0 t1 (Inr ?runs)) =
     [exampleSlitherFinding ''SLTH-001'' ''low-level-calls'' (Literal Low) ''high'',
      exampleSlitherFinding ''SLTH-002'' ''unused-return'' (Literal Medium) ''informational'',
      exampleSlitherFinding ''SLTH-003'' ''arbitrary-send-eth'' (Literal High) ''high'',
      exampleSlitherFinding ''SLTH-004'' ''divide-before-multiply'' (Literal Medium) ''medium'']"
    by (simp add: runStaticAnalysis_def unmapped_confidence_findings runPatternChecks_def)
  have clone: "gitClone ?w (rq_repoUrl exampleRequest)
      (orString (rq_branch exampleRequest) ''main'') = Inr (''cloned-repos/vault-1001'', ''abc123'')"
    by (simp add: exampleWorldWith_def example_defs)
  have sol: "findSolFiles ?w ''cloned-repos/vault-1001'' = Inr [''contracts/Vault.sol'']"
    by (simp add: exampleWorldWith_def example_defs)
  have nonempty: "[''contracts/Vault.sol''] \<noteq> []"
    by simp
  have static: "analyzerRuns ?w ''cloned-repos/vault-1001'' = Inr ?runs"
    by (simp add: exampleWorldWith_def exampleWorld_def)
  have told: "fst (notifyStaticAnalysisComplete exampleConfig ?w (sortFindings ?w ?fs)
                (slice0 5 (sortFindings ?w ?fs))) = Inr ()"
  proof (rule notifyStaticAnalysisComplete_returns)
    fix f
    assume "f \<in> set (slice0 5 (sortFindings ?w ?fs))"
    then have "f \<in> set ?fs"
      by (auto simp add: slice0_def set_sortFindings dest: in_set_takeD)
    then show "(\<exists>t. ToString (raw_title f) = Inr t) \<and> (\<exists>t. ToString (raw_file f) = Inr t)
             \<and> (\<exists>t. ToString (raw_line f) = Inr t) \<and> (\<exists>s. raw_description f = Str s)"
      unfolding fs by (auto simp add: exampleSlitherFinding_def)
  qed
  have gate: "runAudit_dynamicGate exampleConfig exampleRequest"
    by (simp add: runAudit_dynamicGate_def example_defs)
  have gen: "\<And>fs p. generateFixes ?w fs p = Inr \<lparr> fx_fixes = [''fix for SLTH-002''] \<rparr>"
    by (simp add: exampleWorldWith_def exampleWorld_def)
  have pr: "\<And>input. createPR ?w input
         = Inr \<lparr> pr_success = True, pr_prUrl = Some ''https://github.com/acme/vault/pull/7'',
                 pr_error = None \<rparr>"
    by (simp add: exampleWorldWith_def exampleWorld_def)
  have save: "\<And>dir rep. writeReport ?w dir rep = Inr ()"
    by (simp add: exampleWorldWith_def exampleWorld_def)
  obtain r where r: "fst (runAuditTry exampleConfig ?w exampleRequest
                        (auditIdAt (now_auditId (clock ?w)))) = Inr r"
    "ar_success r" "ar_findings r = sortFindings ?w ?fs"
    using runAuditTry_dynamic_failure [OF clone sol nonempty static told gate gen pr save]
    by blast
  have unscored: "priorityScoreOf
      (exampleSlitherFinding ''SLTH-002'' ''unused-return'' (Literal Medium) ''informational'') = None"
    by (simp add: priorityScoreOf_def confidenceOf_def exampleSlitherFinding_def)
  have "\<not> sorted_wrt scoreAtLeast (sortFindings ?w ?fs)"
    by (rule sortFindings_unscored_not_descending [OF _ unscored]) (simp_all add: fs)
  then show ?thesis
    using r by (simp add: resultOf_def fst_runAudit)
qed

text \<open>
  Claim C10, at a Slither report of four detectors whose second has the confidence
  \<^verbatim>\<open>Informational\<close>. The sort is in place, as the claim says: the result and the report
  hold the array that was sorted. But the score of the second finding is \<^verbatim>\<open>NaN\<close>, the
  comparator is not a consistent order, and the array comes out as it went in, the finding
  of score 6 ahead of the one of score 21: the findings returned and persisted are not the
  descending-priority-sorted permutation. No engine could make them so: whatever
  arrangement the sort leaves, the list returned is not in descending order.
\<close>

theorem unmapped_confidence_leaves_findings_unsorted:
  "map_option ar_success
      (resultOf (runAudit exampleConfig (exampleWorldWith unmappedConfidenceReport) exampleRequest))
     = Some True
   \<and> map_option (map raw_id \<circ> ar_findings)
        (resultOf (runAudit exampleConfig (exampleWorldWith unmappedConfidenceReport) exampleRequest))
       = Some [''SLTH-001'', ''SLTH-002'', ''SLTH-003'', ''SLTH-004'']
   \<and> map_option (map raw_confidence \<circ> ar_findings)
        (resultOf (runAudit exampleConfig (exampleWorldWith unmappedConfidenceReport) exampleRequest))
       = Some [''high'', ''informational'', ''high'', ''medium'']
   \<and> map_option (map priorityScoreOf \<circ> ar_findings)
        (resultOf (runAudit exampleConfig (exampleWorldWith unmappedConfidenceReport) exampleRequest))
       = Some [Some 6, None, Some 21, Some 8]
   \<and> map_option (sorted_wrt scoreAtLeast \<circ> ar_findings)
        (resultOf (runAudit exampleConfig (exampleWorldWith unmappedConfidenceReport) exampleRequest))
       = Some False
   \<and> map (\<lambda>(dir, rep). map raw_id (sa_findings (staticAnalysis rep)))
        (reportsOf (snd (runAudit exampleConfig (exampleWorldWith unmappedConfidenceReport)
           exampleRequest)))
       = [ [''SLTH-001'', ''SLTH-002'', ''SLTH-003'', ''SLTH-004''] ]
   \<and> map_option (sorted_wrt scoreAtLeast \<circ> ar_findings)
        (resultOf (runAudit exampleConfig
           ((exampleWorldWith unmappedConfidenceReport) \<lparr> enginePermutation := engine \<rparr>)
           exampleRequest)) = Some False"
proof -
  have returned: "map_option ar_success
      (resultOf (runAudit exampleConfig (exampleWorldWith unmappedConfidenceReport) exampleRequest))
     = Some True
   \<and> map_option (map raw_id \<circ> ar_findings)
        (resultOf (runAudit exampleConfig (exampleWorldWith unmappedConfidenceReport) exampleRequest))
       = Some [''SLTH-001'', ''SLTH-002'', ''SLTH-003'', ''SLTH-004'']
   \<and> map_option (map raw_confidence \<circ> ar_findings)
        (resultOf (runAudit exampleConfig (exampleWorldWith unmappedConfidenceReport) exampleRequest))
       = Some [''high'', ''informational'', ''high'', ''medium'']
   \<and> map_option (map priorityScoreOf \<circ> ar_findings)
        (resultOf (runAudit exampleConfig (exampleWorldWith unmappedConfidenceReport) exampleRequest))
       = Some [Some 6, None, Some 21, Some 8]
   \<and> map_option (sorted_wrt scoreAtLeast \<circ> ar_findings)
        (resultOf (runAudit exampleConfig (exampleWorldWith unmappedConfidenceReport) exampleRequest))
       = Some False"
    by (simp add: unmapped_confidence_findings exampleWorldWith_def eval_defs scoreAtLeast_def
        upt_rec)
  have persisted: "map (\<lambda>(dir, rep). map raw_id (sa_findings (staticAnalysis rep)))
        (reportsOf (snd (runAudit exampleConfig (exampleWorldWith unmappedConfidenceReport)
           exampleRequest)))
       = [ [''SLTH-001'', ''SLTH-002'', ''SLTH-003'', ''SLTH-004''] ]"
    by (simp add: unmapped_confidence_findings exampleWorldWith_def eval_defs upt_rec)
  have any: "map_option (sorted_wrt scoreAtLeast \<circ> ar_findings)
        (resultOf (runAudit exampleConfig
           ((exampleWorldWith unmappedConfidenceReport) \<lparr> enginePermutation := engine \<rparr>)
           exampleRequest)) = Some False"
    using unmapped_confidence_any_engine [of engine] by (rule conjunct2)
  from returned persisted any show ?thesis
    by (simp only: simp_thms)
qed

subsection \<open>Identifiers\<close>

lemma digit_value: "d < 10 \<Longrightarrow> of_char (digitChar d) - 48 = (d::nat)"
  by (simp add: digitChar_def)

lemma readNat_snoc: "readNat (s @ [c]) = 10 * readNat s + (of_char c - 48)"
  by (simp add: readNat_def)

lemma readNat_showNat: "readNat (showNat n) = n"
proof (induction n rule: showNat.induct)
  case (1 n)
  show ?case
  proof (cases "n < 10")
    case True
    then show ?thesis
      by (subst showNat.simps) (simp add: readNat_def digit_value)
  next
    case False
    have "readNat (showNat n) = 10 * readNat (showNat (n div 10)) + (of_char (digitChar (n mod 10)) - 48)"
      using False by (subst showNat.simps) (simp add: readNat_snoc)
    also have "\<dots> = 10 * (n div 10) + n mod 10"
      using "1.IH" [OF False] by (simp add: digit_value)
    finally show ?thesis by simp
  qed
qed

lemma showNat_inject: "(showNat a = showNat b) = (a = b)"
  by (metis readNat_showNat)

lemma auditIdAt_inject: "(auditIdAt t = auditIdAt t') = (t = t')"
  by (simp add: auditIdAt_def showNat_inject)

lemma map_of_mapSet: "map_of (mapSet k v al) k = Some v"
  by (induction al) auto

lemma postAuditStart_registers:
  assumes "orString (b_repoUrl body) [] \<noteq> []"
  shows "\<exists>request. postAuditStart now body st =
     (Started (auditIdAt now),
      \<lparr> objects = objects st @
          [\<lparr> as_id = auditIdAt now, as_repoUrl = orString (b_repoUrl body) [],
             as_branch = withDefault (b_branch body) ''main'', status = Queued,
             as_progress = None, startedAt = now, completedAt = None,
             as_result = None, as_error = None \<rparr>],
        audits = mapSet (auditIdAt now) (length (objects st)) (audits st) \<rparr>,
      Some (length (objects st), request))"
  using assms by (simp add: postAuditStart_def Let_def)

lemma startAudit_ids:
  assumes "orString (b_repoUrl body) [] \<noteq> []"
  shows "fst (startAudit cfg w body st) = Started (auditIdAt (now_request (clock w)))"
    and "map_option as_id (getAudit (fst (snd (startAudit cfg w body st)))
            (auditIdAt (now_request (clock w)))) = Some (auditIdAt (now_request (clock w)))"
    and "map_option (map_option ar_auditId \<circ> as_result)
           (getAudit (fst (snd (startAudit cfg w body st))) (auditIdAt (now_request (clock w))))
         = Some (Some (auditIdAt (now_auditId (clock w))))"
proof -
  obtain request where p: "postAuditStart (now_request (clock w)) body st =
     (Started (auditIdAt (now_request (clock w))),
      \<lparr> objects = objects st @
          [\<lparr> as_id = auditIdAt (now_request (clock w)), as_repoUrl = orString (b_repoUrl body) [],
             as_branch = withDefault (b_branch body) ''main'', status = Queued,
             as_progress = None, startedAt = now_request (clock w), completedAt = None,
             as_result = None, as_error = None \<rparr>],
        audits = mapSet (auditIdAt (now_request (clock w))) (length (objects st)) (audits st) \<rparr>,
      Some (length (objects st), request))"
    using postAuditStart_registers [OF assms] by blast
  obtain r where r: "fst (runAudit cfg w request) = Inr r"
    using runAudit_returns by blast
  have ident: "ar_auditId r = auditIdAt (now_auditId (clock w))"
    using runAudit_carries_ident [of cfg w request] r by (simp add: resultOf_def)
  show "fst (startAudit cfg w body st) = Started (auditIdAt (now_request (clock w)))"
    using p by (simp add: startAudit_def split: prod.splits)
  show "map_option as_id (getAudit (fst (snd (startAudit cfg w body st)))
            (auditIdAt (now_request (clock w)))) = Some (auditIdAt (now_request (clock w)))"
    using p r
    by (simp add: startAudit_def auditJob_state modifyObject_def getAudit_def map_of_mapSet
        split: prod.splits)
  show "map_option (map_option ar_auditId \<circ> as_result)
           (getAudit (fst (snd (startAudit cfg w body st))) (auditIdAt (now_request (clock w))))
         = Some (Some (auditIdAt (now_auditId (clock w))))"
    using p r ident
    by (simp add: startAudit_def auditJob_state modifyObject_def getAudit_def map_of_mapSet
        split: prod.splits)
qed

text \<open>
  Claim C9 as stated fails: the server and \<^verbatim>\<open>runAudit\<close> each read the clock and build an
  identifier of their own. With the request at 1000 and \<^verbatim>\<open>runAudit\<close> starting at 1001, the
  run is registered and answered as \<^verbatim>\<open>audit-1000\<close>, while the result stored under that key
  says \<^verbatim>\<open>audit-1001\<close> and the report lies in \<^verbatim>\<open>memory/audit-1001\<close>. And a second request
  in the same millisecond gets the identifier of the first and takes its place in the
  registry.
\<close>

theorem registry_key_differs_from_result_id:
  "fst (startAudit exampleConfig exampleWorld exampleBody emptyServer) = Started ''audit-1000''
   \<and> map_option as_id
        (getAudit (fst (snd (startAudit exampleConfig exampleWorld exampleBody emptyServer)))
           ''audit-1000'') = Some ''audit-1000''
   \<and> map_option (map_option ar_auditId \<circ> as_result)
        (getAudit (fst (snd (startAudit exampleConfig exampleWorld exampleBody emptyServer)))
           ''audit-1000'') = Some (Some ''audit-1001'')
   \<and> map fst (reportsOf (snd (snd (startAudit exampleConfig exampleWorld exampleBody emptyServer))))
       = [''memory/audit-1001'']
   \<and> ''audit-1000'' \<noteq> ''audit-1001''
   \<and> fst (postAuditStart 1000 exampleBody
            (fst (snd (postAuditStart 1000 exampleBody emptyServer)))) = Started ''audit-1000''
   \<and> audits (fst (snd (postAuditStart 1000 exampleBody
            (fst (snd (postAuditStart 1000 exampleBody emptyServer)))))) = [(''audit-1000'', 1)]"
  by (simp add: eval_defs)

text \<open>
  Claim C9, amended. The identifiers are built from readings of the clock, and two of them
  are equal exactly when the readings are. The server's identifier, from the reading at the
  request, is the one in its answer, the key of the registry and the \<^verbatim>\<open>id\<close> of the run
  record. The identifier of \<^verbatim>\<open>runAudit\<close>, from its own reading, is the one in the result it
  returns (also the result stored in the run record) and in every report it writes, and it
  names the report's directory.
\<close>

theorem audit_ids_follow_clock_readings:
  "(orString (b_repoUrl body) [] \<noteq> [] \<longrightarrow>
      fst (startAudit cfg w body st) = Started (auditIdAt (now_request (clock w)))
      \<and> map_option as_id (getAudit (fst (snd (startAudit cfg w body st)))
            (auditIdAt (now_request (clock w)))) = Some (auditIdAt (now_request (clock w)))
      \<and> map_option (map_option ar_auditId \<circ> as_result)
           (getAudit (fst (snd (startAudit cfg w body st))) (auditIdAt (now_request (clock w))))
         = Some (Some (auditIdAt (now_auditId (clock w)))))
   \<and> map_option ar_auditId (resultOf (runAudit cfg w request))
       = Some (auditIdAt (now_auditId (clock w)))
   \<and> reportsCarry (auditIdAt (now_auditId (clock w))) (snd (runAudit cfg w request))
   \<and> (auditIdAt t = auditIdAt t') = (t = t')"
  using startAudit_ids [of body cfg w st] runAudit_carries_ident [of cfg w request]
    runAuditTry_reports [of "auditIdAt (now_auditId (clock w))" cfg w request]
  by (simp add: auditIdAt_inject reportsCarry_def runAudit_reports)

theorem audit_ids_follow_clock_readings_witness:
  "orString (b_repoUrl exampleBody) [] \<noteq> []
   \<and> fst (startAudit exampleConfig exampleWorld exampleBody emptyServer)
       = Started (auditIdAt (now_request (clock exampleWorld)))
   \<and> auditIdAt (now_request (clock exampleWorld)) = ''audit-1000''
   \<and> map_option ar_auditId (resultOf (runAudit exampleConfig exampleWorld exampleRequest))
       = Some ''audit-1001''
   \<and> reportsCarry ''audit-1001'' (snd (runAudit exampleConfig exampleWorld exampleRequest))
   \<and> reportsOf (snd (runAudit exampleConfig exampleWorld exampleRequest)) \<noteq> []
   \<and> (auditIdAt 1000 = auditIdAt 1001) = ((1000::nat) = 1001)"
proof -
  have url: "orString (b_repoUrl exampleBody) [] \<noteq> []"
    by (simp add: orString_def exampleBody_def)
  have ids: "auditIdAt (now_request (clock exampleWorld)) = ''audit-1000''"
    "auditIdAt (now_auditId (clock exampleWorld)) = ''audit-1001''"
    by (simp_all add: auditIdAt_def example_ids example_defs)
  have written: "reportsOf (snd (runAudit exampleConfig exampleWorld exampleRequest)) \<noteq> []"
    by (simp add: eval_defs)
  show ?thesis
    using audit_ids_follow_clock_readings
      [where body = exampleBody and cfg = exampleConfig and w = exampleWorld
         and st = emptyServer and request = exampleRequest and t = 1000 and t' = 1001]
      url written
    by (simp add: ids)
qed

section \<open>The adapters' defaults\<close>

text \<open>What does hold of the two defaults.\<close>

lemma severityOf_default:
  assumes "ToString native = Inr key"
    and "key \<notin> fst ` set SEVERITY_MAP"
    and "key \<notin> set objectPrototypeMembers"
  shows "severityOf native = Inr (Literal Info)"
proof -
  have "map_of SEVERITY_MAP key = None"
    using assms(2) by (simp add: map_of_eq_None_iff)
  then show ?thesis
    using assms(1,3) by (simp add: severityOf_def readSeverityMap_def)
qed

lemma severityOf_missing: "severityOf Undefined = Inr (Literal Info)"
  by (simp add: severityOf_def readSeverityMap_def SEVERITY_MAP_def objectPrototypeMembers_def)

lemma slitherConfidence_missing:
  "slitherConfidence Undefined = Inr ''medium''"
  "slitherConfidence Null = Inr ''medium''"
  "slitherConfidence (Str []) = Inr ''medium''"
  by (simp_all add: slitherConfidence_def toLowerCase_def)

lemma slitherConfidence_present:
  "s \<noteq> [] \<Longrightarrow> slitherConfidence (Str s) = Inr (toLowerCase s)"
  by (simp add: slitherConfidence_def toLowerCase_def)

lemma solhint_confidence:
  "solhintFinding n path issue = Inr finding \<Longrightarrow> raw_confidence finding = ''medium''"
  by (auto simp add: solhintFinding_def split: sum.split_asm)

text \<open>A native severity that names a member of \<^verbatim>\<open>Object.prototype\<close> finds that member.\<close>

lemma severityOf_inherited: "severityOf (Str ''constructor'') = Inr (Inherited ''constructor'')"
  by (simp add: severityOf_def readSeverityMap_def SEVERITY_MAP_def objectPrototypeMembers_def)

text \<open>
  A native confidence that is not a string makes the adapter throw inside the loop: the
  findings pushed before it are resolved, the detectors after it are never read.
\<close>

lemma slither_stops_at_throw:
  "slitherFinding 2
      (Obj [(''check'', Str ''unused-return''), (''impact'', Str ''Medium''), (''confidence'', Num 2)])
     = Inl (Thrown ''detector.confidence?.toLowerCase is not a function'')"
  "map raw_id (runSlither (exampleReport
      [exampleDetector ''reentrancy-benign'' ''Low'' ''Medium'',
       Obj [(''check'', Str ''unused-return''), (''impact'', Str ''Medium''), (''confidence'', Num 2)],
       exampleDetector ''arbitrary-send-eth'' ''High'' ''High'']))
     = [''SLTH-001'']"
  by (simp_all add: exampleReport_def exampleDetector_def adapter_defs showNat_digits
      toLowerCase_examples)

text \<open>
  Claim C6, at a Slither detector whose native confidence is none of High, Medium, Low. The
  adapter does not throw and the severity is mapped, but the confidence of the finding is
  the native value in lower case: it is not \<^verbatim>\<open>medium\<close>, and not a confidence of the
  \<^verbatim>\<open>Finding\<close> interface at all.
\<close>

theorem slither_unmapped_confidence_kept:
  "map_sum errorMsg raw_confidence (slitherFinding 1
      (Obj [(''check'', Str ''reentrancy-eth''),
            (''description'', Str ''Reentrancy in Vault.withdraw()''),
            (''impact'', Str ''High''), (''confidence'', Str ''Informational'')]))
     = Inr ''informational''
   \<and> map_sum errorMsg raw_severity (slitherFinding 1
      (Obj [(''check'', Str ''reentrancy-eth''),
            (''description'', Str ''Reentrancy in Vault.withdraw()''),
            (''impact'', Str ''High''), (''confidence'', Str ''Informational'')]))
     = Inr (Literal High)
   \<and> map raw_confidence (runSlither (exampleReport
      [Obj [(''check'', Str ''reentrancy-eth''),
            (''description'', Str ''Reentrancy in Vault.withdraw()''),
            (''impact'', Str ''High''), (''confidence'', Str ''Informational'')]]))
     = [''informational'']
   \<and> ''informational'' \<noteq> ''medium''
   \<and> ''informational'' \<notin> set [''high'', ''medium'', ''low'']"
  by (simp add: exampleReport_def adapter_defs showNat_digits toLowerCase_examples)


end
